theory Spec2Isabelle
  imports Main "HOL-Library.Word"
begin

section \<open>Results, errors and the Go string functions the code calls\<close>

text \<open>
  A Go \<open>error\<close> value is an \<open>err\<close>: \<open>Errorf\<close> carries the formatted message of
  \<open>fmt.Errorf\<close>, \<open>Wrap msg e\<close> is \<open>errors.Wrap(e, msg)\<close> (the cause is kept), \<open>EOF\<close> is
  \<open>io.EOF\<close> and \<open>Remote\<close> is any other error handed over by the gRPC library.

  A function that returns \<open>(T, error)\<close> is modelled with the result type \<open>failure + T\<close>:
  \<open>Inr v\<close> is a return with a nil error, \<open>Inl (Error e)\<close> a return with the non-nil
  error \<open>e\<close> (every caller in the source discards the value that travels beside a non-nil
  error), \<open>Inl (Panic m)\<close> a runtime panic and \<open>Inl (Exit m)\<close> the process exit of
  \<open>log.Fatal\<close>.
\<close>

datatype err = Errorf string | Wrap string err | EOF | Remote string

datatype failure = Error err | Panic string | Exit string

text \<open>
  Go strings are byte sequences, as \<open>string\<close> is. Every separator the code passes to
  \<open>strings.Split\<close> and \<open>strings.SplitN\<close> is one byte long, so the separator is a \<open>char\<close>.
  \<open>Cut s sep\<close> is the text before and after the first \<open>sep\<close> (\<open>strings.Index\<close> followed by
  the two slices \<open>genSplit\<close> takes).
\<close>

fun Cut :: "string \<Rightarrow> char \<Rightarrow> (string \<times> string) option" where
  "Cut [] sep = None"
| "Cut (c # cs) sep =
     (if c = sep then Some ([], cs)
      else (case Cut cs sep of None \<Rightarrow> None | Some (a, b) \<Rightarrow> Some (c # a, b)))"

text \<open>\<open>strings.SplitN(s, sep, n)\<close> for \<open>n \<ge> 0\<close>: at most \<open>n\<close> pieces, the last one unsplit.\<close>

fun SplitN :: "string \<Rightarrow> char \<Rightarrow> nat \<Rightarrow> string list" where
  "SplitN s sep 0 = []"
| "SplitN s sep (Suc 0) = [s]"
| "SplitN s sep (Suc (Suc n)) =
     (case Cut s sep of None \<Rightarrow> [s] | Some (a, b) \<Rightarrow> a # SplitN b sep (Suc n))"

text \<open>\<open>strings.Split(s, sep)\<close> is \<open>genSplit\<close> with \<open>n = Count(s, sep) + 1\<close>.\<close>

definition Split :: "string \<Rightarrow> char \<Rightarrow> string list" where
  "Split s sep = SplitN s sep (Suc (count_list s sep))"

definition HasPrefix :: "string \<Rightarrow> string \<Rightarrow> bool" where
  "HasPrefix s pre = (length s \<ge> length pre \<and> take (length pre) s = pre)"

definition HasSuffix :: "string \<Rightarrow> string \<Rightarrow> bool" where
  "HasSuffix s suf = (length s \<ge> length suf \<and> drop (length s - length suf) s = suf)"

text \<open>
  \<open>strings.TrimSpace\<close> removes leading and trailing white space as \<open>unicode.IsSpace\<close>
  defines it. On the UTF-8 bytes of the string these are the six ASCII characters
  tab, line feed, vertical tab, form feed, carriage return and space, and the encodings of
  U+0085, U+00A0, U+1680, U+2000 to U+200A, U+2028, U+2029, U+202F, U+205F and U+3000.
\<close>

definition asciiSpace :: "char \<Rightarrow> bool" where
  "asciiSpace c = (c \<in> {CHR 0x09, CHR 0x0A, CHR 0x0B, CHR 0x0C, CHR 0x0D, CHR 0x20})"

definition unicodeSpaces :: "string list" where
  "unicodeSpaces =
     [[CHR 0xC2, CHR 0x85], [CHR 0xC2, CHR 0xA0], [CHR 0xE1, CHR 0x9A, CHR 0x80],
      [CHR 0xE2, CHR 0x80, CHR 0x80], [CHR 0xE2, CHR 0x80, CHR 0x81],
      [CHR 0xE2, CHR 0x80, CHR 0x82], [CHR 0xE2, CHR 0x80, CHR 0x83],
      [CHR 0xE2, CHR 0x80, CHR 0x84], [CHR 0xE2, CHR 0x80, CHR 0x85],
      [CHR 0xE2, CHR 0x80, CHR 0x86], [CHR 0xE2, CHR 0x80, CHR 0x87],
      [CHR 0xE2, CHR 0x80, CHR 0x88], [CHR 0xE2, CHR 0x80, CHR 0x89],
      [CHR 0xE2, CHR 0x80, CHR 0x8A], [CHR 0xE2, CHR 0x80, CHR 0xA8],
      [CHR 0xE2, CHR 0x80, CHR 0xA9], [CHR 0xE2, CHR 0x80, CHR 0xAF],
      [CHR 0xE2, CHR 0x81, CHR 0x9F], [CHR 0xE3, CHR 0x80, CHR 0x80]]"

text \<open>The number of bytes of the white-space rune the string starts with, 0 if none.\<close>

definition spaceWidth :: "string \<Rightarrow> nat" where
  "spaceWidth s =
     (case s of [] \<Rightarrow> 0
      | c # _ \<Rightarrow>
          if asciiSpace c then 1
          else (case filter (\<lambda>enc. take (length enc) s = enc) unicodeSpaces of
                  [] \<Rightarrow> 0 | enc # _ \<Rightarrow> length enc))"

fun TrimLeft :: "nat \<Rightarrow> string \<Rightarrow> string" where
  "TrimLeft 0 s = s"
| "TrimLeft (Suc fuel) s =
     (if spaceWidth s = 0 then s else TrimLeft fuel (drop (spaceWidth s) s))"

text \<open>
  Each round removes at least one byte, so \<open>length s\<close> rounds are enough. The trailing
  side is the leading side of the reversed string with the encodings reversed, which is
  the same function because every encoding is recognised from its last byte backwards.
\<close>

definition spaceWidthRight :: "string \<Rightarrow> nat" where
  "spaceWidthRight s =
     (case rev s of [] \<Rightarrow> 0
      | c # _ \<Rightarrow>
          if asciiSpace c then 1
          else (case filter (\<lambda>enc. take (length enc) (rev s) = rev enc) unicodeSpaces of
                  [] \<Rightarrow> 0 | enc # _ \<Rightarrow> length enc))"

fun TrimRight :: "nat \<Rightarrow> string \<Rightarrow> string" where
  "TrimRight 0 s = s"
| "TrimRight (Suc fuel) s =
     (if spaceWidthRight s = 0 then s
      else TrimRight fuel (take (length s - spaceWidthRight s) s))"

definition TrimSpace :: "string \<Rightarrow> string" where
  "TrimSpace s = (let l = TrimLeft (length s) s in TrimRight (length l) l)"

text \<open>\<open>fmt.Sprintf("%d", n)\<close>: the decimal digits, with a minus sign when negative.\<close>

definition digitChar :: "nat \<Rightarrow> char" where
  "digitChar d = ''0123456789'' ! d"

fun digits :: "nat \<Rightarrow> string" where
  "digits n = (if n < 10 then [digitChar n] else digits (n div 10) @ [digitChar (n mod 10)])"

declare digits.simps [simp del]

definition Sprintf_d :: "int \<Rightarrow> string" where
  "Sprintf_d n = (if n < 0 then CHR ''-'' # digits (nat (- n)) else digits (nat n))"

text \<open>\<open>strings.Join\<close>, used for the \<open>%v\<close> rendering of a string slice.\<close>

fun Join :: "string list \<Rightarrow> string \<Rightarrow> string" where
  "Join [] sep = []"
| "Join [x] sep = x"
| "Join (x # y # ys) sep = x @ sep @ Join (y # ys) sep"

definition Sprintf_v :: "string list \<Rightarrow> string" where
  "Sprintf_v xs = ''['' @ Join xs '' '' @ '']''"

section \<open>The parsed configuration file\<close>

text \<open>
  The INI parser (\<open>github.com/go-ini/ini\<close>) is a library outside the repository. The
  model starts from what it hands to the code: the sections of the file in file order, each
  with its name, its keys in declaration order and its raw body (kept for the sections
  loaded as unparseable). The accessors follow the library's documented contract:
  \<open>Section\<close> and \<open>Key\<close> return an empty section or an empty value when the name is absent,
  \<open>MustString\<close> returns the default for an empty value, and the child sections of
  \<open>[parent]\<close> are the sections named \<open>[parent.\<dots>]\<close>, in file order. A section of the
  library knows its file, which the accessors of keys take here as their first argument.
\<close>

record ini_section =
  sec_name :: string
  sec_keys :: "(string \<times> string) list"
  sec_body :: string

type_synonym ini_file = "ini_section list"

definition Section :: "ini_file \<Rightarrow> string \<Rightarrow> ini_section" where
  "Section config n =
     (case find (\<lambda>s. sec_name s = n) config of
        Some s \<Rightarrow> s
      | None \<Rightarrow> \<lparr>sec_name = n, sec_keys = [], sec_body = []\<rparr>)"

definition ChildSections :: "ini_file \<Rightarrow> string \<Rightarrow> ini_section list" where
  "ChildSections config n = filter (\<lambda>s. HasPrefix (sec_name s) (n @ ''.'')) config"

text \<open>
  A key that a section does not have is looked up in its parent sections
  (\<open>Section.GetKey\<close>): the name of the section is cut at its last dot, again and again, and
  the first section of the file with one of these names that has the key gives the value.
  \<open>parentNames\<close> lists these names, the longest first; \<open>parentNamesRev\<close> works on the
  reversed name.
\<close>

fun parentNamesRev :: "string \<Rightarrow> string list" where
  "parentNamesRev [] = []"
| "parentNamesRev (c # cs) =
     (if c = CHR ''.'' then rev cs # parentNamesRev cs else parentNamesRev cs)"

definition parentNames :: "string \<Rightarrow> string list" where
  "parentNames n = parentNamesRev (rev n)"

fun lookupChain :: "ini_file \<Rightarrow> string list \<Rightarrow> string \<Rightarrow> string option" where
  "lookupChain config [] k = None"
| "lookupChain config (n # ns) k =
     (case find (\<lambda>s. sec_name s = n) config of
        None \<Rightarrow> lookupChain config ns k
      | Some sec \<Rightarrow>
          (case map_of (sec_keys sec) k of
             Some v \<Rightarrow> Some v
           | None \<Rightarrow> lookupChain config ns k))"

definition GetKey :: "ini_file \<Rightarrow> ini_section \<Rightarrow> string \<Rightarrow> string option" where
  "GetKey config section k =
     (case map_of (sec_keys section) k of
        Some v \<Rightarrow> Some v
      | None \<Rightarrow> lookupChain config (parentNames (sec_name section)) k)"

text \<open>\<open>Key(k).String()\<close>: the value of the key, empty when no section of the chain has it.\<close>

definition KeyString :: "ini_file \<Rightarrow> ini_section \<Rightarrow> string \<Rightarrow> string" where
  "KeyString config section k = (case GetKey config section k of Some v \<Rightarrow> v | None \<Rightarrow> [])"

definition MustString :: "ini_file \<Rightarrow> ini_section \<Rightarrow> string \<Rightarrow> string \<Rightarrow> string" where
  "MustString config section k d =
     (let v = KeyString config section k in if v = [] then d else v)"

text \<open>
  Numbers: the library parses with \<open>strconv.ParseInt(s, 0, 64)\<close>. The model reads a plain
  decimal literal with an optional sign, within the 64-bit range; the prefixed literals
  that base 0 also accepts (\<open>0x\<close>, \<open>0o\<close>, \<open>0b\<close>, a leading \<open>0\<close>, underscores) are outside
  the model and read as unparseable.
\<close>

definition isDigit :: "char \<Rightarrow> bool" where
  "isDigit c = (48 \<le> (of_char c :: nat) \<and> (of_char c :: nat) \<le> 57)"

fun digitsValue :: "string \<Rightarrow> nat \<Rightarrow> nat" where
  "digitsValue [] acc = acc"
| "digitsValue (c # cs) acc = digitsValue cs (10 * acc + (of_char c - 48))"

definition ParseUint :: "string \<Rightarrow> nat option" where
  "ParseUint s =
     (if s = [] \<or> \<not> list_all isDigit s \<or> (hd s = CHR ''0'' \<and> length s > 1) then None
      else if digitsValue s 0 < 2 ^ 64 then Some (digitsValue s 0) else None)"

definition ParseInt :: "string \<Rightarrow> int option" where
  "ParseInt s =
     (let neg = (s \<noteq> [] \<and> hd s = CHR ''-'');
          body = (if s \<noteq> [] \<and> (hd s = CHR ''-'' \<or> hd s = CHR ''+'') then tl s else s)
      in if body = [] \<or> \<not> list_all isDigit body \<or> (hd body = CHR ''0'' \<and> length body > 1)
         then None
         else (let v = int (digitsValue body 0) in
               if neg then (if v \<le> 2 ^ 63 then Some (- v) else None)
               else (if v < 2 ^ 63 then Some v else None)))"

definition MustInt :: "ini_file \<Rightarrow> ini_section \<Rightarrow> string \<Rightarrow> int \<Rightarrow> int" where
  "MustInt config section k d =
     (case ParseInt (KeyString config section k) of Some v \<Rightarrow> v | None \<Rightarrow> d)"

text \<open>
  \<open>Key.Strings(",")\<close>, which \<open>MapTo\<close> uses for a \<open>[]string\<close> field: no entry for an empty
  value, otherwise the comma-separated entries, each trimmed.
\<close>

definition KeyStrings :: "ini_file \<Rightarrow> ini_section \<Rightarrow> string \<Rightarrow> string list" where
  "KeyStrings config section k =
     (let v = KeyString config section k in
      if v = [] then [] else map TrimSpace (Split v CHR '',''))"

text \<open>The library's \<open>parseBool\<close>; \<open>MapTo\<close> leaves a field alone when the value does not parse.\<close>

definition parseBool :: "string \<Rightarrow> bool option" where
  "parseBool s =
     (if s \<in> set [''1'', ''t'', ''T'', ''TRUE'', ''true'', ''True'', ''YES'', ''yes'', ''Yes'',
                  ''y'', ''ON'', ''on'', ''On''] then Some True
      else if s \<in> set [''0'', ''f'', ''F'', ''FALSE'', ''false'', ''False'', ''NO'', ''no'',
                       ''No'', ''n'', ''OFF'', ''off'', ''Off''] then Some False
      else None)"

definition MapBool :: "ini_file \<Rightarrow> ini_section \<Rightarrow> string \<Rightarrow> bool" where
  "MapBool config section k =
     (case parseBool (KeyString config section k) of Some b \<Rightarrow> b | None \<Rightarrow> False)"

definition MapInt :: "ini_file \<Rightarrow> ini_section \<Rightarrow> string \<Rightarrow> int" where
  "MapInt config section k =
     (case ParseInt (KeyString config section k) of Some v \<Rightarrow> v | None \<Rightarrow> 0)"

section \<open>Source configuration (config.go)\<close>

definition SOURCE_UNKNOWN :: int where [simp]: "SOURCE_UNKNOWN = 0"
definition SOURCE_BIRDWATCHER :: int where [simp]: "SOURCE_BIRDWATCHER = 1"
definition SOURCE_GOBGP :: int where [simp]: "SOURCE_GOBGP = 2"
definition SOURCE_BIORIS :: int where [simp]: "SOURCE_BIORIS = 3"

text \<open>
  Modelled from the spec: the configuration structs \<open>birdwatcher.Config\<close> and
  \<open>gobgp.Config\<close> are not under src/. The spec says that the keys of the backend section
  are mapped onto the type-specific struct and that unset keys keep the defaults assigned
  before the section is mapped. The records hold the fields \<open>getSources\<close> assigns, and
  the backend section \<open>MapTo\<close> is applied to, which stands for the fields the library fills
  from its keys and, through the lookup in parent sections, from those of its file.
\<close>

record birdwatcher_Config =
  bw_Id :: string
  bw_Name :: string
  bw_Timezone :: string
  bw_ServerTime :: string
  bw_ServerTimeShort :: string
  bw_ServerTimeExt :: string
  bw_Type :: string
  bw_PeerTablePrefix :: string
  bw_PipeProtocolPrefix :: string
  bw_mapped :: "ini_section option"

record gobgp_Config =
  gobgp_Id :: string
  gobgp_Name :: string
  gobgp_mapped :: "ini_section option"

text \<open>\<open>bioris.Config\<close>, from the source.\<close>

record bioris_Config =
  bio_Id :: string
  bio_Name :: string
  bio_API :: string
  bio_Router :: string
  bio_VRFID :: "64 word"

definition birdwatcher_Config0 :: birdwatcher_Config where
  "birdwatcher_Config0 =
     \<lparr>bw_Id = [], bw_Name = [], bw_Timezone = [], bw_ServerTime = [],
      bw_ServerTimeShort = [], bw_ServerTimeExt = [], bw_Type = [],
      bw_PeerTablePrefix = [], bw_PipeProtocolPrefix = [], bw_mapped = None\<rparr>"

definition gobgp_Config0 :: gobgp_Config where
  "gobgp_Config0 = \<lparr>gobgp_Id = [], gobgp_Name = [], gobgp_mapped = None\<rparr>"

definition bioris_Config0 :: bioris_Config where
  "bioris_Config0 = \<lparr>bio_Id = [], bio_Name = [], bio_API = [], bio_Router = [], bio_VRFID = 0\<rparr>"

text \<open>
  \<open>MapTo\<close> on a \<open>bioris.Config\<close>. A field is filled from the key named by its \<open>ini\<close> tag,
  and a field without a tag (\<open>Id\<close>, \<open>Name\<close>) from the key that has the name of the field;
  the key is looked up as \<open>GetKey\<close> does. A field keeps its value when the key is missing
  or empty or, for \<open>VRFID\<close>, does not parse.
\<close>

definition MapString :: "ini_file \<Rightarrow> ini_section \<Rightarrow> string \<Rightarrow> string \<Rightarrow> string" where
  "MapString config section k old =
     (if KeyString config section k = [] then old else KeyString config section k)"

definition MapTo_bioris :: "ini_file \<Rightarrow> ini_section \<Rightarrow> bioris_Config \<Rightarrow> bioris_Config" where
  "MapTo_bioris config section c =
     \<lparr>bio_Id = MapString config section ''Id'' (bio_Id c),
      bio_Name = MapString config section ''Name'' (bio_Name c),
      bio_API = MapString config section ''api'' (bio_API c),
      bio_Router = MapString config section ''router'' (bio_Router c),
      bio_VRFID = (case ParseUint (KeyString config section ''vrf_id'') of
                     Some v \<Rightarrow> of_nat v | None \<Rightarrow> bio_VRFID c)\<rparr>"

text \<open>
  A backend instance is a reference into the store of live instances (see the registry
  below); \<open>None\<close> is the nil interface value.
\<close>

type_synonym ref = nat

record SourceConfig =
  src_Id :: string
  src_Order :: int
  src_Name :: string
  src_Group :: string
  src_Blackholes :: "string list"
  src_Type :: int
  src_Birdwatcher :: birdwatcher_Config
  src_GoBGP :: gobgp_Config
  src_BioRIS :: bioris_Config
  src_instance :: "ref option"

definition isSourceBase :: "ini_section \<Rightarrow> bool" where
  "isSourceBase section = (length (Split (sec_name section) CHR ''.'') = 2)"

definition getBackendType :: "ini_section \<Rightarrow> int" where
  "getBackendType section =
     (let name = sec_name section in
      if HasSuffix name ''birdwatcher'' then SOURCE_BIRDWATCHER
      else if HasSuffix name ''gobgp'' then SOURCE_GOBGP
      else if HasSuffix name ''bioris'' then SOURCE_BIORIS
      else SOURCE_UNKNOWN)"

text \<open>
  Modelled from the spec: \<open>TrimmedStringList\<close> is not under src/. The spec only says that
  the descriptor holds a list of blackhole-IP strings; the helper is taken to split the
  value at commas, trim every entry and drop the empty ones.
\<close>

definition TrimmedStringList :: "string \<Rightarrow> string list" where
  "TrimmedStringList s = map TrimSpace (filter (\<lambda>t. t \<noteq> []) (Split s CHR '',''))"

text \<open>
  The body of the loop of \<open>getSources\<close> for one section that passed \<open>isSourceBase\<close>, with
  the current value of the counter \<open>order\<close>. The slice \<open>section.Name()[len("source:"):]\<close>
  panics on a name shorter than seven bytes. The log lines are not modelled.
\<close>

definition getSource :: "ini_file \<Rightarrow> int \<Rightarrow> ini_section \<Rightarrow> failure + SourceConfig" where
  "getSource config order section =
     (if length (sec_name section) < 7 then Inl (Panic ''slice bounds out of range'')
      else
        let sourceId = drop 7 (sec_name section);
            sourceConfigSections = ChildSections config (sec_name section)
        in
        if length sourceConfigSections = 0 then
          Inl (Error (Errorf (sec_name section @ '' has no backend configuration'')))
        else if length sourceConfigSections > 1 then
          Inl (Error (Errorf (sec_name section @ '' has ambigous backends'')))
        else
          let backendConfig = sourceConfigSections ! 0;
              backendType = getBackendType backendConfig
          in
          if backendType = SOURCE_UNKNOWN then
            Inl (Error (Errorf (sec_name section @ '' has an unsupported backend'')))
          else
            let sourceName = MustString config section ''name'' ''Unknown Source'';
                sourceGroup = MustString config section ''group'' [];
                sourceBlackholes = TrimmedStringList (MustString config section ''blackholes'' []);
                sc = \<lparr>src_Id = sourceId, src_Order = order, src_Name = sourceName,
                      src_Group = sourceGroup, src_Blackholes = sourceBlackholes,
                      src_Type = backendType, src_Birdwatcher = birdwatcher_Config0,
                      src_GoBGP = gobgp_Config0, src_BioRIS = bioris_Config0,
                      src_instance = None\<rparr>
            in
            if backendType = SOURCE_BIRDWATCHER then
              let sourceType = MustString config backendConfig ''type'' [];
                  peerTablePrefix = MustString config backendConfig ''peer_table_prefix'' ''T'';
                  pipeProtocolPrefix = MustString config backendConfig ''pipe_protocol_prefix'' ''M''
              in
              if sourceType \<noteq> ''single_table'' \<and> sourceType \<noteq> ''multi_table'' then
                Inl (Exit (''Configuration error (birdwatcher source) unknown birdwatcher type:''
                           @ sourceType))
              else
                Inr (sc\<lparr>src_Birdwatcher :=
                      \<lparr>bw_Id = src_Id sc, bw_Name = src_Name sc, bw_Timezone = ''UTC'',
                       bw_ServerTime = ''2006-01-02T15:04:05.999999999Z07:00'',
                       bw_ServerTimeShort = ''2006-01-02'',
                       bw_ServerTimeExt = ''Mon, 02 Jan 2006 15:04:05 -0700'',
                       bw_Type = sourceType, bw_PeerTablePrefix = peerTablePrefix,
                       bw_PipeProtocolPrefix = pipeProtocolPrefix,
                       bw_mapped = Some backendConfig\<rparr>\<rparr>)
            else if backendType = SOURCE_GOBGP then
              Inr (sc\<lparr>src_GoBGP :=
                    \<lparr>gobgp_Id = src_Id sc, gobgp_Name = src_Name sc,
                     gobgp_mapped = Some backendConfig\<rparr>\<rparr>)
            else if backendType = SOURCE_BIORIS then
              Inr (sc\<lparr>src_BioRIS :=
                    MapTo_bioris config backendConfig
                      (bioris_Config0\<lparr>bio_Id := src_Id sc, bio_Name := src_Name sc\<rparr>)\<rparr>)
            else Inr sc)"

fun getSources_loop ::
  "ini_file \<Rightarrow> ini_section list \<Rightarrow> int \<Rightarrow> SourceConfig list \<Rightarrow> failure + SourceConfig list"
where
  "getSources_loop config [] order sources = Inr sources"
| "getSources_loop config (section # rest) order sources =
     (if \<not> isSourceBase section then getSources_loop config rest order sources
      else (case getSource config order section of
              Inl e \<Rightarrow> Inl e
            | Inr sc \<Rightarrow> getSources_loop config rest (order + 1) (sources @ [sc])))"

definition getSources :: "ini_file \<Rightarrow> failure + SourceConfig list" where
  "getSources config = getSources_loop config (ChildSections config ''source'') 0 []"

section \<open>Domain configuration (config.go)\<close>

subsection \<open>Community sets\<close>

text \<open>
  Modelled from the spec: the type \<open>BgpCommunities\<close>, its method \<open>Set\<close> and the table of
  \<open>MakeWellKnownBgpCommunities\<close> are not under src/. The spec describes a community as
  an ordered list of string tokens, a community set as a mapping from a community tuple to
  a label in which a later \<open>Set\<close> for the same key overwrites the label, and the left side
  of a configuration line as a colon-joined tuple key. The compiled-in table of well-known
  communities is a parameter (\<open>wellKnown\<close>) of the functions that start from it.
\<close>

type_synonym BgpCommunities = "string list \<rightharpoonup> string"

definition Set :: "BgpCommunities \<Rightarrow> string \<Rightarrow> string \<Rightarrow> BgpCommunities" where
  "Set communities community label = communities(Split community CHR '':'' \<mapsto> label)"

text \<open>
  \<open>parseAndMergeCommunities\<close>: the loop over the lines of the body. A line that does not
  split into two parts at its first \<open>=\<close> is logged and skipped.
\<close>

fun mergeLines :: "BgpCommunities \<Rightarrow> string list \<Rightarrow> BgpCommunities" where
  "mergeLines communities [] = communities"
| "mergeLines communities (line # lines) =
     (let kv = SplitN line CHR ''='' 2 in
      if length kv \<noteq> 2 then mergeLines communities lines
      else
        let community = TrimSpace (kv ! 0);
            label = TrimSpace (kv ! 1)
        in mergeLines (Set communities community label) lines)"

definition parseAndMergeCommunities :: "BgpCommunities \<Rightarrow> string \<Rightarrow> BgpCommunities" where
  "parseAndMergeCommunities communities body = mergeLines communities (Split body CHR 0x0A)"

text \<open>
  \<open>config.Section\<close> never returns nil, so the nil checks of \<open>getBgpCommunities\<close> and
  \<open>getRoutesRejections\<close> never fire; an absent section has the empty body.
\<close>

definition getBgpCommunities :: "BgpCommunities \<Rightarrow> ini_file \<Rightarrow> BgpCommunities" where
  "getBgpCommunities wellKnown config =
     parseAndMergeCommunities wellKnown (sec_body (Section config ''bgp_communities''))"

record RejectionsConfig =
  rej_Reasons :: BgpCommunities

record NoexportsConfig =
  noexp_Reasons :: BgpCommunities
  noexp_LoadOnDemand :: bool

record RejectCandidatesConfig =
  cand_Communities :: BgpCommunities

definition getRoutesRejections :: "ini_file \<Rightarrow> failure + RejectionsConfig" where
  "getRoutesRejections config =
     Inr \<lparr>rej_Reasons =
            parseAndMergeCommunities Map.empty (sec_body (Section config ''rejection_reasons''))\<rparr>"

definition getRoutesNoexports :: "ini_file \<Rightarrow> failure + NoexportsConfig" where
  "getRoutesNoexports config =
     Inr \<lparr>noexp_Reasons =
            parseAndMergeCommunities Map.empty (sec_body (Section config ''noexport_reasons'')),
          noexp_LoadOnDemand = MapBool config (Section config ''noexport'') ''load_on_demand''\<rparr>"

fun rejectCandidates_loop :: "BgpCommunities \<Rightarrow> int \<Rightarrow> string list \<Rightarrow> BgpCommunities" where
  "rejectCandidates_loop communities i [] = communities"
| "rejectCandidates_loop communities i (c # cs) =
     rejectCandidates_loop
       (Set communities c (''reject-candidate-'' @ Sprintf_d (i + 1))) (i + 1) cs"

definition getRejectCandidatesConfig :: "ini_file \<Rightarrow> failure + RejectCandidatesConfig" where
  "getRejectCandidatesConfig config =
     (let candidateCommunities = KeyString config (Section config ''rejection_candidates'')
                                    ''communities''
      in if candidateCommunities = [] then Inr \<lparr>cand_Communities = Map.empty\<rparr>
         else Inr \<lparr>cand_Communities =
                     rejectCandidates_loop Map.empty 0 (Split candidateCommunities CHR '','')\<rparr>)"

subsection \<open>RPKI\<close>

record RpkiConfig =
  rpki_Enabled :: bool
  rpki_Valid :: "string list"
  rpki_Unknown :: "string list"
  rpki_NotChecked :: "string list"
  rpki_Invalid :: "string list"

text \<open>\<open>getOwnASN\<close> returns the value 0 beside its error, and the caller uses it.\<close>

definition getOwnASN :: "ini_file \<Rightarrow> int \<times> err option" where
  "getOwnASN config =
     (let asn = MustInt config (Section config ''server'') ''asn'' (- 1) in
      if asn = - 1 then (0, Some (Errorf ''Could not get own ASN from config''))
      else (asn, None))"

definition getRpkiConfig :: "ini_file \<Rightarrow> failure + RpkiConfig" where
  "getRpkiConfig config =
     (let section = Section config ''rpki'';
          rpki = \<lparr>rpki_Enabled = MapBool config section ''enabled'',
                  rpki_Valid = KeyStrings config section ''valid'',
                  rpki_Unknown = KeyStrings config section ''unknown'',
                  rpki_NotChecked = KeyStrings config section ''not_checked'',
                  rpki_Invalid = KeyStrings config section ''invalid''\<rparr>;
          fallbackAsn = fst (getOwnASN config);
          ownAsn = Sprintf_d fallbackAsn;
          rpki = rpki\<lparr>rpki_Valid :=
                   (if length (rpki_Valid rpki) = 0 then [ownAsn, ''1000'', ''1'']
                    else SplitN (rpki_Valid rpki ! 0) CHR '':'' 3)\<rparr>;
          rpki = rpki\<lparr>rpki_Unknown :=
                   (if length (rpki_Unknown rpki) = 0 then [ownAsn, ''1000'', ''2'']
                    else SplitN (rpki_Unknown rpki ! 0) CHR '':'' 3)\<rparr>;
          rpki = rpki\<lparr>rpki_NotChecked :=
                   (if length (rpki_NotChecked rpki) = 0 then [ownAsn, ''1000'', ''3'']
                    else SplitN (rpki_NotChecked rpki ! 0) CHR '':'' 3)\<rparr>
      in
      if length (rpki_Invalid rpki) = 0 then
        Inr (rpki\<lparr>rpki_Invalid := [ownAsn, ''1000'', ''4'', ''*'']\<rparr>)
      else
        let invalid = SplitN (rpki_Invalid rpki ! 0) CHR '':'' 3 in
        if length invalid \<noteq> 3 then
          Inl (Error (Errorf (''Unexpected rpki.Invalid configuration: '' @ Sprintf_v invalid)))
        else
          let tokens = Split (invalid ! 2) CHR ''-'' in
          Inr (rpki\<lparr>rpki_Invalid := [invalid ! 0, invalid ! 1] @ tokens\<rparr>))"

subsection \<open>Columns, theme, pagination\<close>

text \<open>
  The three column functions share one shape: the keys of a section in declaration order,
  or the compiled-in defaults when the section has no key.
\<close>

fun columns_loop ::
  "ini_file \<Rightarrow> ini_section \<Rightarrow> (string \<times> string) list \<Rightarrow>
   (string \<rightharpoonup> string) \<times> string list \<Rightarrow> (string \<rightharpoonup> string) \<times> string list"
where
  "columns_loop config section [] acc = acc"
| "columns_loop config section ((k, v) # keys) (columns, order) =
     columns_loop config section keys
       (columns(k \<mapsto> MustString config section k []), order @ [k])"

definition getRoutesColumnsDefaults :: "(string \<rightharpoonup> string) \<times> string list" where
  "getRoutesColumnsDefaults =
     (map_of [(''network'', ''Network''), (''bgp.as_path'', ''AS Path''),
              (''gateway'', ''Gateway''), (''interface'', ''Interface'')],
      [''network'', ''bgp.as_path'', ''gateway'', ''interface''])"

definition getRoutesColumns :: "ini_file \<Rightarrow> (string \<rightharpoonup> string) \<times> string list" where
  "getRoutesColumns config =
     (let section = Section config ''routes_columns''; keys = sec_keys section in
      if length keys = 0 then getRoutesColumnsDefaults
      else columns_loop config section keys (Map.empty, []))"

definition getNeighboursColumnsDefaults :: "(string \<rightharpoonup> string) \<times> string list" where
  "getNeighboursColumnsDefaults =
     (map_of [(''address'', ''Neighbour''), (''asn'', ''ASN''), (''state'', ''State''),
              (''Uptime'', ''Uptime''), (''Description'', ''Description''),
              (''routes_received'', ''Routes Recv.''),
              (''routes_filtered'', ''Routes Filtered'')],
      [''address'', ''asn'', ''state'', ''Uptime'', ''Description'', ''routes_received'',
       ''routes_filtered''])"

definition getNeighboursColumns :: "ini_file \<Rightarrow> (string \<rightharpoonup> string) \<times> string list" where
  "getNeighboursColumns config =
     (let section = Section config ''neighbours_columns''; keys = sec_keys section in
      if length keys = 0 then getNeighboursColumnsDefaults
      else columns_loop config section keys (Map.empty, []))"

definition getLookupColumnsDefaults :: "(string \<rightharpoonup> string) \<times> string list" where
  "getLookupColumnsDefaults =
     (map_of [(''network'', ''Network''), (''gateway'', ''Gateway''),
              (''neighbour.asn'', ''ASN''), (''neighbour.description'', ''Neighbor''),
              (''bgp.as_path'', ''AS Path''), (''routeserver.name'', ''RS'')],
      [''network'', ''gateway'', ''bgp.as_path'', ''neighbour.asn'', ''neighbour.description'',
       ''routeserver.name''])"

definition getLookupColumns :: "ini_file \<Rightarrow> (string \<rightharpoonup> string) \<times> string list" where
  "getLookupColumns config =
     (let section = Section config ''lookup_columns''; keys = sec_keys section in
      if length keys = 0 then getLookupColumnsDefaults
      else columns_loop config section keys (Map.empty, []))"

record ThemeConfig =
  theme_Path :: string
  theme_BasePath :: string

definition getThemeConfig :: "ini_file \<Rightarrow> ThemeConfig" where
  "getThemeConfig config =
     (let baseConfig = Section config ''theme'';
          themeConfig = \<lparr>theme_Path = KeyString config baseConfig ''path'',
                         theme_BasePath = KeyString config baseConfig ''url_base''\<rparr>
      in if theme_BasePath themeConfig = [] then themeConfig\<lparr>theme_BasePath := ''/theme''\<rparr>
         else themeConfig)"

record PaginationConfig =
  pag_RoutesFilteredPageSize :: int
  pag_RoutesAcceptedPageSize :: int
  pag_RoutesNotExportedPageSize :: int

definition getPaginationConfig :: "ini_file \<Rightarrow> PaginationConfig" where
  "getPaginationConfig config =
     (let baseConfig = Section config ''pagination'' in
      \<lparr>pag_RoutesFilteredPageSize = MapInt config baseConfig ''routes_filtered_page_size'',
       pag_RoutesAcceptedPageSize = MapInt config baseConfig ''routes_accepted_page_size'',
       pag_RoutesNotExportedPageSize = MapInt config baseConfig
                                         ''routes_not_exported_page_size''\<rparr>)"

subsection \<open>The UI configuration and the loader\<close>

record UiConfig =
  ui_RoutesColumns :: "string \<rightharpoonup> string"
  ui_RoutesColumnsOrder :: "string list"
  ui_NeighboursColumns :: "string \<rightharpoonup> string"
  ui_NeighboursColumnsOrder :: "string list"
  ui_LookupColumns :: "string \<rightharpoonup> string"
  ui_LookupColumnsOrder :: "string list"
  ui_RoutesRejections :: RejectionsConfig
  ui_RoutesNoexports :: NoexportsConfig
  ui_RoutesRejectCandidates :: RejectCandidatesConfig
  ui_BgpCommunities :: BgpCommunities
  ui_Rpki :: RpkiConfig
  ui_Theme :: ThemeConfig
  ui_Pagination :: PaginationConfig

text \<open>
  The column functions always return a nil error and the error of
  \<open>getRejectCandidatesConfig\<close> is ignored, so the builder fails on the first error of the
  rejections, the no-exports or the RPKI derivation.
\<close>

definition getUiConfig :: "BgpCommunities \<Rightarrow> ini_file \<Rightarrow> failure + UiConfig" where
  "getUiConfig wellKnown config =
     (let (routesColumns, routesColumnsOrder) = getRoutesColumns config;
          (neighboursColumns, neighboursColumnsOrder) = getNeighboursColumns config;
          (lookupColumns, lookupColumnsOrder) = getLookupColumns config
      in
      case getRoutesRejections config of
        Inl e \<Rightarrow> Inl e
      | Inr rejections \<Rightarrow>
          (case getRoutesNoexports config of
             Inl e \<Rightarrow> Inl e
           | Inr noexports \<Rightarrow>
               (let rejectCandidates =
                      (case getRejectCandidatesConfig config of
                         Inr c \<Rightarrow> c | Inl _ \<Rightarrow> \<lparr>cand_Communities = Map.empty\<rparr>)
                in
                case getRpkiConfig config of
                  Inl e \<Rightarrow> Inl e
                | Inr rpki \<Rightarrow>
                    Inr \<lparr>ui_RoutesColumns = routesColumns,
                         ui_RoutesColumnsOrder = routesColumnsOrder,
                         ui_NeighboursColumns = neighboursColumns,
                         ui_NeighboursColumnsOrder = neighboursColumnsOrder,
                         ui_LookupColumns = lookupColumns,
                         ui_LookupColumnsOrder = lookupColumnsOrder,
                         ui_RoutesRejections = rejections,
                         ui_RoutesNoexports = noexports,
                         ui_RoutesRejectCandidates = rejectCandidates,
                         ui_BgpCommunities = getBgpCommunities wellKnown config,
                         ui_Rpki = rpki,
                         ui_Theme = getThemeConfig config,
                         ui_Pagination = getPaginationConfig config\<rparr>)))"

record ServerConfig =
  srv_Listen :: string
  srv_EnablePrefixLookup :: bool
  srv_NeighboursStoreRefreshInterval :: int
  srv_RoutesStoreRefreshInterval :: int
  srv_Asn :: int
  srv_EnableNeighborsStatusRefresh :: bool

record HousekeepingConfig =
  hk_Interval :: int
  hk_ForceReleaseMemory :: bool

record Config =
  cfg_Server :: ServerConfig
  cfg_Housekeeping :: HousekeepingConfig
  cfg_Ui :: UiConfig
  cfg_Sources :: "SourceConfig list"
  cfg_File :: string

text \<open>\<open>strings.Replace(s, old, new, 1)\<close> for a non-empty \<open>old\<close>: the first occurrence.\<close>

fun Replace1 :: "string \<Rightarrow> string \<Rightarrow> string \<Rightarrow> string" where
  "Replace1 [] old new = []"
| "Replace1 (c # cs) old new =
     (if HasPrefix (c # cs) old then new @ drop (length old) (c # cs)
      else c # Replace1 cs old new)"

text \<open>
  The file system is the predicate \<open>notExist\<close>: whether \<open>os.Stat\<close> of a name fails with a
  not-exist error.
\<close>

definition getConfigFile :: "(string \<Rightarrow> bool) \<Rightarrow> string \<Rightarrow> failure + string" where
  "getConfigFile notExist filename =
     (let filename = (if notExist filename then ''..'' @ filename else filename);
          filename = (if notExist filename then Replace1 filename ''.conf'' ''.local.conf''
                      else filename)
      in if notExist filename then
           Inl (Error (Errorf ''could not find any configuration file''))
         else Inr filename)"

text \<open>
  \<open>loadConfig\<close>. The parser \<open>ini.LoadSources\<close> is the function \<open>LoadSources\<close> from a file
  name to its result.
\<close>

definition loadConfig ::
  "(string \<Rightarrow> bool) \<Rightarrow> (string \<Rightarrow> failure + ini_file) \<Rightarrow> BgpCommunities \<Rightarrow> string \<Rightarrow>
   failure + Config"
where
  "loadConfig notExist LoadSources wellKnown file =
     (case getConfigFile notExist file of
        Inl e \<Rightarrow> Inl e
      | Inr file \<Rightarrow>
          (case LoadSources file of
             Inl e \<Rightarrow> Inl e
           | Inr parsedConfig \<Rightarrow>
               (let s = Section parsedConfig ''server'';
                    server = \<lparr>srv_Listen = KeyString parsedConfig s ''listen_http'',
                              srv_EnablePrefixLookup = MapBool parsedConfig s ''enable_prefix_lookup'',
                              srv_NeighboursStoreRefreshInterval =
                                MapInt parsedConfig s ''neighbours_store_refresh_interval'',
                              srv_RoutesStoreRefreshInterval =
                                MapInt parsedConfig s ''routes_store_refresh_interval'',
                              srv_Asn = MapInt parsedConfig s ''asn'',
                              srv_EnableNeighborsStatusRefresh =
                                MapBool parsedConfig s ''enable_neighbors_status_refresh''\<rparr>;
                    h = Section parsedConfig ''housekeeping'';
                    housekeeping = \<lparr>hk_Interval = MapInt parsedConfig h ''interval'',
                                    hk_ForceReleaseMemory = MapBool parsedConfig h ''force_release_memory''\<rparr>
                in
                case getSources parsedConfig of
                  Inl e \<Rightarrow> Inl e
                | Inr sources \<Rightarrow>
                    (case getUiConfig wellKnown parsedConfig of
                       Inl e \<Rightarrow> Inl e
                     | Inr ui \<Rightarrow>
                         Inr \<lparr>cfg_Server = server, cfg_Housekeeping = housekeeping,
                              cfg_Ui = ui, cfg_Sources = sources, cfg_File = file\<rparr>))))"

section \<open>The BioRIS adapter (sources/bioris/source.go)\<close>

subsection \<open>Time\<close>

text \<open>
  An instant is a number of nanoseconds since the Unix epoch, a \<open>time.Duration\<close> a signed
  64-bit number of nanoseconds. \<open>time.Unix(sec, 0)\<close> stores \<open>sec\<close> plus the offset of the
  epoch in a signed 64-bit field, which wraps; \<open>t.Sub(u)\<close> is documented to return
  \<open>t - u\<close>, or the largest or smallest duration when the difference does not fit.
  The wall clock is the sequence \<open>clock\<close> of the instants that the successive calls of
  \<open>time.Now()\<close> in one operation return.
\<close>

type_synonym instant = int
type_synonym Duration = int



definition Second :: Duration where
  "Second = 1000000000"






subsection \<open>Remote messages and the remote service\<close>

text \<open>
  The protobuf messages of the remote service belong to the bio-rd library. The records
  hold the fields the adapter reads; sub-messages are taken to be present. An address or
  a prefix is held as the string the library renders it to
  (\<open>bnet.IPFromProtoIP(\<dots>).String()\<close>, \<open>bnet.NewPrefixFromProtoPrefix(\<dots>).String()\<close>), and
  the session status as the string \<open>Status.String()\<close> returns.
\<close>

record SessionStats =
  stats_RoutesReceived :: "64 word"
  stats_RoutesExported :: "64 word"

record Session =
  sess_NeighborAddress :: string
  sess_PeerAsn :: "32 word"
  sess_Status :: string
  sess_Stats :: SessionStats
  sess_EstablishedSince :: "64 word"
  sess_Description :: string

record ASPathSegment =
  seg_Asns :: "32 word list"

record BGPPath =
  bgp_AsPath :: "ASPathSegment list"
  bgp_NextHop :: string
  bgp_Med :: "32 word"
  bgp_LocalPref :: "32 word"

datatype Path_Type = Path_BGP | Path_Other nat

record Path =
  path_Type :: Path_Type
  path_BgpPath :: BGPPath

record Route =
  route_Pfx :: string
  route_Paths :: "Path list"

record DumpRIBReply =
  reply_Route :: Route

datatype AFISAFI = IPv4Unicast | IPv6Unicast

record GetNeighborsRequest =
  gnreq_Router :: string

record DumpRIBRequest =
  dreq_Router :: string
  dreq_VrfId :: "64 word"
  dreq_Afisafi :: AFISAFI
  dreq_Neighbor :: string

text \<open>
  One call of \<open>Recv\<close> on a stream yields a message or an error; \<open>io.EOF\<close> is the clean end.
  A stream is the sequence of the results of its successive \<open>Recv\<close> calls.
\<close>

datatype recv = Msg DumpRIBReply | RecvErr err

type_synonym stream = "nat \<Rightarrow> recv"

datatype connectivity = Idle | Connecting | Ready | TransientFailure | Shutdown

type_synonym conn = nat

text \<open>
  The remote side during one operation: the state \<open>GetState\<close> reports for a connection,
  the outcome of \<open>grpc.Dial\<close> for a target, and the outcome of the two remote calls on a
  connection.
\<close>

record remote =
  rem_GetState :: "conn \<Rightarrow> connectivity"
  rem_Dial :: "string \<Rightarrow> err + conn"
  rem_GetNeighbors :: "conn \<Rightarrow> GetNeighborsRequest \<Rightarrow> err + Session list"
  rem_DumpRIB :: "conn \<Rightarrow> DumpRIBRequest \<Rightarrow> err + stream"

subsection \<open>Domain responses\<close>

text \<open>
  Modelled from the spec: the types of the package \<open>backend/api\<close> are not under src/. The
  spec describes a response envelope (version, cache status, result-from-cache flag, time
  to live) around every payload, a neighbour with its state, counters and uptime, and a
  route with its BGP attributes. The records hold the fields the adapter assigns, under
  the names the source gives them. A slice field is an \<open>option\<close>: \<open>None\<close> is the nil
  slice, \<open>Some []\<close> the empty slice made by \<open>make\<close>.
\<close>

datatype CacheStatus = CacheStatus_zero

record ApiStatus =
  api_Version :: string
  api_CacheStatus :: CacheStatus
  api_ResultFromCache :: bool
  api_Ttl :: instant

record api_Status =
  st_ServerTime :: instant
  st_Version :: string
  st_Backend :: string

record StatusResponse =
  sr_Api :: ApiStatus
  sr_Status :: api_Status



record NeighbourStatus =
  ns_State :: string
  ns_Since :: Duration

record NeighboursStatusResponse =
  nsr_Api :: ApiStatus
  nsr_Neighbours :: "NeighbourStatus list"

record BgpInfo =
  bi_AsPath :: "int list"
  bi_NextHop :: string
  bi_Med :: int
  bi_LocalPref :: int

record api_Route =
  ar_Id :: string
  ar_Network :: string
  ar_Bgp :: BgpInfo

record RoutesResponse =
  rr_Api :: ApiStatus
  rr_Imported :: "api_Route list option"
  rr_Filtered :: "api_Route list option"
  rr_NotExported :: "api_Route list option"

subsection \<open>The adapter\<close>

definition apiVersion :: string where
  "apiVersion = ''v0.1.0''"

record BioRIS =
  br_config :: bioris_Config
  br_grpcConn :: "conn option"

definition NewBioRIS :: "bioris_Config \<Rightarrow> BioRIS" where
  "NewBioRIS config = \<lparr>br_config = config, br_grpcConn = None\<rparr>"

definition ExpireCaches :: "BioRIS \<Rightarrow> int" where
  "ExpireCaches br = 0"

definition getDefaultApiStatus :: "instant \<Rightarrow> ApiStatus" where
  "getDefaultApiStatus now =
     \<lparr>api_Version = apiVersion, api_CacheStatus = CacheStatus_zero,
      api_ResultFromCache = False, api_Ttl = now + 60 * Second\<rparr>"

definition Status :: "(nat \<Rightarrow> instant) \<Rightarrow> BioRIS \<Rightarrow> (failure + StatusResponse) \<times> BioRIS" where
  "Status clock br =
     (Inr \<lparr>sr_Api = getDefaultApiStatus (clock 0),
           sr_Status = \<lparr>st_ServerTime = clock 1, st_Version = apiVersion,
                        st_Backend = ''BioRIS''\<rparr>\<rparr>, br)"

text \<open>
  \<open>getRISClient\<close>: a handle that is not ready is closed and dropped, a missing handle is
  dialled. The client stub is the connection it talks on.
\<close>

definition getRISClient :: "remote \<Rightarrow> BioRIS \<Rightarrow> (err + conn) \<times> BioRIS" where
  "getRISClient env br =
     (let br = (case br_grpcConn br of
                  Some c \<Rightarrow> if rem_GetState env c \<noteq> Ready then br\<lparr>br_grpcConn := None\<rparr> else br
                | None \<Rightarrow> br)
      in case br_grpcConn br of
           None \<Rightarrow>
             (case rem_Dial env (bio_API (br_config br)) of
                Inl e \<Rightarrow> (Inl (Wrap ''Could not connect to api'' e), br)
              | Inr c \<Rightarrow> (Inr c, br\<lparr>br_grpcConn := Some c\<rparr>))
         | Some c \<Rightarrow> (Inr c, br))"




definition NeighboursStatus ::
  "remote \<Rightarrow> (nat \<Rightarrow> instant) \<Rightarrow> BioRIS \<Rightarrow> (failure + NeighboursStatusResponse) \<times> BioRIS"
where
  "NeighboursStatus env clock br =
     (case getRISClient env br of
        (Inl e, br) \<Rightarrow> (Inl (Error (Wrap ''Could not get RIS client'' e)), br)
      | (Inr risclient, br) \<Rightarrow>
          (case rem_GetNeighbors env risclient \<lparr>gnreq_Router = bio_Router (br_config br)\<rparr> of
             Inl e \<Rightarrow> (Inl (Error (Wrap ''Could not get neighbors'' e)), br)
           | Inr client \<Rightarrow>
               (Inr \<lparr>nsr_Api = getDefaultApiStatus (clock 0),
                     nsr_Neighbours =
                       map (\<lambda>_. \<lparr>ns_State = ''unclear if used'', ns_Since = 0\<rparr>) client\<rparr>,
                br)))"

definition RoutesFiltered ::
  "(nat \<Rightarrow> instant) \<Rightarrow> BioRIS \<Rightarrow> string \<Rightarrow> (failure + RoutesResponse) \<times> BioRIS"
where
  "RoutesFiltered clock br neighbourId =
     (Inr \<lparr>rr_Api = getDefaultApiStatus (clock 0), rr_Imported = None,
           rr_Filtered = Some [], rr_NotExported = None\<rparr>, br)"

definition RoutesNotExported ::
  "(nat \<Rightarrow> instant) \<Rightarrow> BioRIS \<Rightarrow> string \<Rightarrow> (failure + RoutesResponse) \<times> BioRIS"
where
  "RoutesNotExported clock br neighbourId =
     (Inr \<lparr>rr_Api = getDefaultApiStatus (clock 0), rr_Imported = None,
           rr_Filtered = None, rr_NotExported = Some []\<rparr>, br)"

text \<open>
  \<open>makeAliceRoute\<close>: the index \<open>bgpPath.AsPath[0]\<close> panics on an empty segment list.
\<close>

definition makeAliceRoute :: "string \<Rightarrow> BGPPath \<Rightarrow> failure + api_Route" where
  "makeAliceRoute pfx bgpPath =
     (let pfxStr = pfx in
      case bgp_AsPath bgpPath of
        [] \<Rightarrow> Inl (Panic ''index out of range [0] with length 0'')
      | seg0 # _ \<Rightarrow>
          Inr \<lparr>ar_Id = pfxStr, ar_Network = pfxStr,
               ar_Bgp = \<lparr>bi_AsPath = map uint (seg_Asns seg0),
                         bi_NextHop = bgp_NextHop bgpPath,
                         bi_Med = uint (bgp_Med bgpPath),
                         bi_LocalPref = uint (bgp_LocalPref bgpPath)\<rparr>\<rparr>)"

text \<open>The loop over the paths of one received route.\<close>

fun paths_loop :: "string \<Rightarrow> Path list \<Rightarrow> api_Route list \<Rightarrow> failure + api_Route list" where
  "paths_loop pfx [] routes = Inr routes"
| "paths_loop pfx (path # paths) routes =
     (if path_Type path = Path_BGP then
        (case makeAliceRoute pfx (path_BgpPath path) of
           Inl f \<Rightarrow> Inl f
         | Inr r \<Rightarrow> paths_loop pfx paths (routes @ [r]))
      else paths_loop pfx paths routes)"

text \<open>
  The receive loop runs until \<open>Recv\<close> returns an error, which a stream may never do: the
  loop is a partial function and \<open>None\<close> is the run that does not return. \<open>k\<close> is the number
  of \<open>Recv\<close> calls made on the stream so far.
\<close>

partial_function (option) recv_loop ::
  "stream \<Rightarrow> nat \<Rightarrow> api_Route list \<Rightarrow> (failure + api_Route list) option"
where
  "recv_loop client k routes =
     (case client k of
        RecvErr e \<Rightarrow>
          if e = EOF then Some (Inr routes)
          else Some (Inl (Error (Wrap ''Receive failed'' e)))
      | Msg r \<Rightarrow>
          (case paths_loop (route_Pfx (reply_Route r)) (route_Paths (reply_Route r)) routes of
             Inl f \<Rightarrow> Some (Inl f)
           | Inr routes' \<Rightarrow> recv_loop client (Suc k) routes'))"

text \<open>The loop over the address families.\<close>

fun afi_loop ::
  "remote \<Rightarrow> BioRIS \<Rightarrow> conn \<Rightarrow> string \<Rightarrow> AFISAFI list \<Rightarrow> api_Route list \<Rightarrow>
   (failure + api_Route list) option"
where
  "afi_loop env br risclient neighbor [] routes = Some (Inr routes)"
| "afi_loop env br risclient neighbor (afi # afis) routes =
     (case rem_DumpRIB env risclient
             \<lparr>dreq_Router = bio_Router (br_config br), dreq_VrfId = bio_VRFID (br_config br),
              dreq_Afisafi = afi, dreq_Neighbor = neighbor\<rparr> of
        Inl e \<Rightarrow> Some (Inl (Error (Wrap ''Could not dump RIB'' e)))
      | Inr client \<Rightarrow>
          (case recv_loop client 0 routes of
             None \<Rightarrow> None
           | Some (Inl f) \<Rightarrow> Some (Inl f)
           | Some (Inr routes') \<Rightarrow> afi_loop env br risclient neighbor afis routes'))"

definition getRoutes ::
  "remote \<Rightarrow> (nat \<Rightarrow> instant) \<Rightarrow> BioRIS \<Rightarrow> string \<Rightarrow>
   ((failure + RoutesResponse) \<times> BioRIS) option"
where
  "getRoutes env clock br neighbor =
     (case getRISClient env br of
        (Inl e, br) \<Rightarrow> Some (Inl (Error (Wrap ''Could not get RIB client'' e)), br)
      | (Inr risclient, br) \<Rightarrow>
          (case afi_loop env br risclient neighbor [IPv4Unicast, IPv6Unicast] [] of
             None \<Rightarrow> None
           | Some (Inl f) \<Rightarrow> Some (Inl f, br)
           | Some (Inr routes) \<Rightarrow>
               Some (Inr \<lparr>rr_Api = \<lparr>api_Version = apiVersion, api_CacheStatus = CacheStatus_zero,
                                    api_ResultFromCache = False, api_Ttl = clock 0\<rparr>,
                          rr_Imported = Some routes, rr_Filtered = None,
                          rr_NotExported = None\<rparr>, br)))"

definition Routes ::
  "remote \<Rightarrow> (nat \<Rightarrow> instant) \<Rightarrow> BioRIS \<Rightarrow> string \<Rightarrow>
   ((failure + RoutesResponse) \<times> BioRIS) option"
where
  "Routes env clock br neighbourId = getRoutes env clock br neighbourId"

definition RoutesReceived ::
  "remote \<Rightarrow> (nat \<Rightarrow> instant) \<Rightarrow> BioRIS \<Rightarrow> string \<Rightarrow>
   ((failure + RoutesResponse) \<times> BioRIS) option"
where
  "RoutesReceived env clock br neighbourId = getRoutes env clock br neighbourId"

definition AllRoutes ::
  "remote \<Rightarrow> (nat \<Rightarrow> instant) \<Rightarrow> BioRIS \<Rightarrow> ((failure + RoutesResponse) \<times> BioRIS) option"
where
  "AllRoutes env clock br = getRoutes env clock br []"

section \<open>The registry of backend instances (config.go)\<close>

text \<open>
  A backend instance is an object behind a pointer, and two interface values are the same
  instance when they hold the same pointer. The store is the list of the instances
  constructed so far; a reference is a position in it, and a constructor appends a new
  object and returns its position.
\<close>

datatype Source =
  Source_Birdwatcher birdwatcher_Config
| Source_GoBGP gobgp_Config
| Source_BioRIS BioRIS

type_synonym store = "Source list"

definition alloc :: "store \<Rightarrow> Source \<Rightarrow> ref \<times> store" where
  "alloc st obj = (length st, st @ [obj])"

text \<open>
  Modelled from the spec: the constructors \<open>birdwatcher.NewBirdwatcher\<close> and
  \<open>gobgp.NewGoBGP\<close> are not under src/. The spec says that the registry passes the one
  relevant payload to the matching constructor and that construction is side-effect-light;
  each of them is taken to build one new instance that holds its payload, as
  \<open>bioris.NewBioRIS\<close> does.
\<close>

definition NewBirdwatcher :: "store \<Rightarrow> birdwatcher_Config \<Rightarrow> ref \<times> store" where
  "NewBirdwatcher st config = alloc st (Source_Birdwatcher config)"

definition NewGoBGP :: "store \<Rightarrow> gobgp_Config \<Rightarrow> ref \<times> store" where
  "NewGoBGP st config = alloc st (Source_GoBGP config)"

definition getInstance :: "store \<Rightarrow> SourceConfig \<Rightarrow> ref option \<times> store \<times> SourceConfig" where
  "getInstance st self =
     (if src_instance self \<noteq> None then (src_instance self, st, self)
      else
        let (instance, st) =
              (if src_Type self = SOURCE_BIRDWATCHER then
                 (let (r, st) = NewBirdwatcher st (src_Birdwatcher self) in (Some r, st))
               else if src_Type self = SOURCE_GOBGP then
                 (let (r, st) = NewGoBGP st (src_GoBGP self) in (Some r, st))
               else if src_Type self = SOURCE_BIORIS then
                 (let (r, st) = alloc st (Source_BioRIS (NewBioRIS (src_BioRIS self)))
                  in (Some r, st))
               else (None, st))
        in (instance, st, self\<lparr>src_instance := instance\<rparr>))"

text \<open>
  \<open>SourceById\<close> returns the first descriptor with the identifier; the pointer it returns is
  the position of the descriptor in the list of the configuration.
\<close>

fun SourceById_loop :: "SourceConfig list \<Rightarrow> string \<Rightarrow> nat \<Rightarrow> nat option" where
  "SourceById_loop [] sourceId i = None"
| "SourceById_loop (sourceConfig # rest) sourceId i =
     (if src_Id sourceConfig = sourceId then Some i else SourceById_loop rest sourceId (Suc i))"

definition SourceById :: "Config \<Rightarrow> string \<Rightarrow> nat option" where
  "SourceById self sourceId = SourceById_loop (cfg_Sources self) sourceId 0"

definition SourceInstanceById ::
  "store \<Rightarrow> Config \<Rightarrow> string \<Rightarrow> ref option \<times> store \<times> Config"
where
  "SourceInstanceById st self sourceId =
     (case SourceById self sourceId of
        None \<Rightarrow> (None, st, self)
      | Some i \<Rightarrow>
          (let (instance, st, sourceConfig) = getInstance st (cfg_Sources self ! i) in
           (instance, st, self\<lparr>cfg_Sources := (cfg_Sources self)[i := sourceConfig]\<rparr>)))"

section \<open>Notions used in the statements\<close>



text \<open>
  A stream \<open>receives\<close> the replies \<open>ms\<close> when its first \<open>Recv\<close> calls yield them in order, and
  \<open>delivers\<close> them with the end \<open>e\<close> when the call after them yields the error \<open>e\<close>.
  \<open>streamOf ms e\<close> is such a stream.
\<close>

definition receives :: "stream \<Rightarrow> DumpRIBReply list \<Rightarrow> bool" where
  "receives client ms = (\<forall>k < length ms. client k = Msg (ms ! k))"

definition delivers :: "stream \<Rightarrow> DumpRIBReply list \<Rightarrow> err \<Rightarrow> bool" where
  "delivers client ms e = (receives client ms \<and> client (length ms) = RecvErr e)"

definition streamOf :: "DumpRIBReply list \<Rightarrow> err \<Rightarrow> stream" where
  "streamOf ms e k = (if k < length ms then Msg (ms ! k) else RecvErr e)"

text \<open>
  A reply is well formed when each of its BGP paths has an AS-path segment. \<open>isBGP\<close>
  selects the paths tagged as BGP, and \<open>routesOf\<close> is the list of the translations of the
  BGP paths of a reply, in the order of the paths.
\<close>

definition isBGP :: "Path \<Rightarrow> bool" where
  "isBGP path = (path_Type path = Path_BGP)"

definition wellFormed :: "DumpRIBReply \<Rightarrow> bool" where
  "wellFormed m =
     list_all (\<lambda>path. bgp_AsPath (path_BgpPath path) \<noteq> [])
       (filter isBGP (route_Paths (reply_Route m)))"

definition routesOf :: "DumpRIBReply \<Rightarrow> api_Route list" where
  "routesOf m =
     concat (map (\<lambda>path. case makeAliceRoute (route_Pfx (reply_Route m)) (path_BgpPath path) of
                            Inr r \<Rightarrow> [r] | Inl _ \<Rightarrow> [])
                 (filter isBGP (route_Paths (reply_Route m))))"

text \<open>The receive loop on a list of replies: what the loop does with a stream that
  receives them.\<close>

fun replies_loop :: "DumpRIBReply list \<Rightarrow> api_Route list \<Rightarrow> failure + api_Route list" where
  "replies_loop [] routes = Inr routes"
| "replies_loop (r # rs) routes =
     (case paths_loop (route_Pfx (reply_Route r)) (route_Paths (reply_Route r)) routes of
        Inl f \<Rightarrow> Inl f
      | Inr routes' \<Rightarrow> replies_loop rs routes')"

text \<open>The request \<open>getRoutes\<close> sends for an address family.\<close>

definition ribRequest :: "BioRIS \<Rightarrow> AFISAFI \<Rightarrow> string \<Rightarrow> DumpRIBRequest" where
  "ribRequest br afi neighbor =
     \<lparr>dreq_Router = bio_Router (br_config br), dreq_VrfId = bio_VRFID (br_config br),
      dreq_Afisafi = afi, dreq_Neighbor = neighbor\<rparr>"

text \<open>The response \<open>getRoutes\<close> builds around the accumulated routes.\<close>

definition importedResponse :: "instant \<Rightarrow> api_Route list \<Rightarrow> RoutesResponse" where
  "importedResponse now routes =
     \<lparr>rr_Api = \<lparr>api_Version = apiVersion, api_CacheStatus = CacheStatus_zero,
                 api_ResultFromCache = False, api_Ttl = now\<rparr>,
      rr_Imported = Some routes, rr_Filtered = None, rr_NotExported = None\<rparr>"

text \<open>The sections the loop of \<open>getSources\<close> does not skip, in scan order.\<close>

definition sourceSections :: "ini_file \<Rightarrow> ini_section list" where
  "sourceSections config = filter isSourceBase (ChildSections config ''source'')"

text \<open>The error \<open>getSources\<close> makes with \<open>fmt.Errorf("%s <what>", section.Name())\<close>.\<close>

definition sourceError :: "ini_section \<Rightarrow> string \<Rightarrow> failure" where
  "sourceError section what = Error (Errorf (sec_name section @ what))"

text \<open>
  A line of a community body contains \<open>=\<close> or not; the key of a line is the tuple of the
  colon-separated tokens of the trimmed text before its first \<open>=\<close>, and its label the
  trimmed text after it.
\<close>

definition hasEquals :: "string \<Rightarrow> bool" where
  "hasEquals line = (CHR ''='' \<in> set line)"

definition lineKey :: "string \<Rightarrow> string list" where
  "lineKey line = Split (TrimSpace (takeWhile (\<lambda>c. c \<noteq> CHR ''='') line)) CHR '':''"

definition lineLabel :: "string \<Rightarrow> string" where
  "lineLabel line = TrimSpace (tl (dropWhile (\<lambda>c. c \<noteq> CHR ''='') line))"

definition setLine :: "string \<Rightarrow> BgpCommunities \<Rightarrow> BgpCommunities" where
  "setLine line communities =
     (if hasEquals line then communities(lineKey line \<mapsto> lineLabel line) else communities)"

section \<open>Example inputs\<close>

text \<open>Three configurations for the RPKI derivation.\<close>

definition rpkiDefault :: ini_file where
  "rpkiDefault = [\<lparr>sec_name = ''server'', sec_keys = [(''asn'', ''65000'')], sec_body = []\<rparr>]"

definition rpkiRange :: ini_file where
  "rpkiRange =
     [\<lparr>sec_name = ''rpki'', sec_keys = [(''invalid'', ''65000:1000:5-9'')], sec_body = []\<rparr>]"

definition rpkiShort :: ini_file where
  "rpkiShort =
     [\<lparr>sec_name = ''rpki'', sec_keys = [(''invalid'', ''65000:1000'')], sec_body = []\<rparr>]"

text \<open>A BioRIS descriptor without an instance, and a configuration that holds it.\<close>

definition bioDescriptor :: SourceConfig where
  "bioDescriptor =
     \<lparr>src_Id = ''rs1'', src_Order = 0, src_Name = ''RS1'', src_Group = [],
      src_Blackholes = [], src_Type = SOURCE_BIORIS,
      src_Birdwatcher = birdwatcher_Config0, src_GoBGP = gobgp_Config0,
      src_BioRIS = \<lparr>bio_Id = ''rs1'', bio_Name = ''RS1'', bio_API = ''localhost:4321'',
                     bio_Router = ''10.0.0.1'', bio_VRFID = 0\<rparr>,
      src_instance = None\<rparr>"

definition registryConfig :: Config where
  "registryConfig =
     \<lparr>cfg_Server = \<lparr>srv_Listen = ''127.0.0.1:7340'', srv_EnablePrefixLookup = False,
                     srv_NeighboursStoreRefreshInterval = 0,
                     srv_RoutesStoreRefreshInterval = 0, srv_Asn = 65000,
                     srv_EnableNeighborsStatusRefresh = False\<rparr>,
      cfg_Housekeeping = \<lparr>hk_Interval = 0, hk_ForceReleaseMemory = False\<rparr>,
      cfg_Ui = \<lparr>ui_RoutesColumns = fst getRoutesColumnsDefaults,
                 ui_RoutesColumnsOrder = snd getRoutesColumnsDefaults,
                 ui_NeighboursColumns = fst getNeighboursColumnsDefaults,
                 ui_NeighboursColumnsOrder = snd getNeighboursColumnsDefaults,
                 ui_LookupColumns = fst getLookupColumnsDefaults,
                 ui_LookupColumnsOrder = snd getLookupColumnsDefaults,
                 ui_RoutesRejections = \<lparr>rej_Reasons = Map.empty\<rparr>,
                 ui_RoutesNoexports =
                   \<lparr>noexp_Reasons = Map.empty, noexp_LoadOnDemand = False\<rparr>,
                 ui_RoutesRejectCandidates = \<lparr>cand_Communities = Map.empty\<rparr>,
                 ui_BgpCommunities = Map.empty,
                 ui_Rpki = \<lparr>rpki_Enabled = False, rpki_Valid = [''65000'', ''1000'', ''1''],
                             rpki_Unknown = [''65000'', ''1000'', ''2''],
                             rpki_NotChecked = [''65000'', ''1000'', ''3''],
                             rpki_Invalid = [''65000'', ''1000'', ''4'', ''*'']\<rparr>,
                 ui_Theme = \<lparr>theme_Path = [], theme_BasePath = ''/theme''\<rparr>,
                 ui_Pagination = \<lparr>pag_RoutesFilteredPageSize = 0,
                                   pag_RoutesAcceptedPageSize = 0,
                                   pag_RoutesNotExportedPageSize = 0\<rparr>\<rparr>,
      cfg_Sources = [bioDescriptor],
      cfg_File = ''alice.conf''\<rparr>"

text \<open>
  An adapter for that descriptor, a wall clock, and a remote service with two sessions,
  one IPv4 reply with a BGP path and a path of another type, and one IPv6 reply.
\<close>

definition exampleBioRIS :: BioRIS where
  "exampleBioRIS = NewBioRIS (src_BioRIS bioDescriptor)"

definition exampleClock :: "nat \<Rightarrow> instant" where
  "exampleClock k = 1700000000 * Second + int k"

definition exampleSessions :: "Session list" where
  "exampleSessions =
     [\<lparr>sess_NeighborAddress = ''192.0.2.1'', sess_PeerAsn = 64500,
       sess_Status = ''Established'',
       sess_Stats = \<lparr>stats_RoutesReceived = 10, stats_RoutesExported = 5\<rparr>,
       sess_EstablishedSince = 1600000000, sess_Description = ''peer one''\<rparr>,
      \<lparr>sess_NeighborAddress = ''192.0.2.2'', sess_PeerAsn = 64501,
       sess_Status = ''Idle'',
       sess_Stats = \<lparr>stats_RoutesReceived = 0, stats_RoutesExported = 0\<rparr>,
       sess_EstablishedSince = 0, sess_Description = ''peer two''\<rparr>]"

definition reply4 :: DumpRIBReply where
  "reply4 =
     \<lparr>reply_Route =
        \<lparr>route_Pfx = ''192.0.2.0/24'',
         route_Paths =
           [\<lparr>path_Type = Path_BGP,
             path_BgpPath = \<lparr>bgp_AsPath = [\<lparr>seg_Asns = [64500, 64496]\<rparr>],
                             bgp_NextHop = ''192.0.2.1'', bgp_Med = 0,
                             bgp_LocalPref = 100\<rparr>\<rparr>,
            \<lparr>path_Type = Path_Other 0,
             path_BgpPath = \<lparr>bgp_AsPath = [], bgp_NextHop = [], bgp_Med = 0,
                             bgp_LocalPref = 0\<rparr>\<rparr>]\<rparr>\<rparr>"

definition reply6 :: DumpRIBReply where
  "reply6 =
     \<lparr>reply_Route =
        \<lparr>route_Pfx = ''2001:db8::/32'',
         route_Paths =
           [\<lparr>path_Type = Path_BGP,
             path_BgpPath = \<lparr>bgp_AsPath = [\<lparr>seg_Asns = [64501]\<rparr>],
                             bgp_NextHop = ''2001:db8::1'', bgp_Med = 10,
                             bgp_LocalPref = 200\<rparr>\<rparr>]\<rparr>\<rparr>"

definition exampleRemote :: remote where
  "exampleRemote =
     \<lparr>rem_GetState = (\<lambda>c. Ready),
      rem_Dial = (\<lambda>target. Inr 1),
      rem_GetNeighbors = (\<lambda>c req. Inr exampleSessions),
      rem_DumpRIB = (\<lambda>c req. Inr (if dreq_Afisafi req = IPv4Unicast
                                     then streamOf [reply4] EOF
                                     else streamOf [reply6] EOF))\<rparr>"

text \<open>The same service with an IPv4 stream that breaks after its first reply.\<close>

definition resetRemote :: remote where
  "resetRemote =
     exampleRemote\<lparr>rem_DumpRIB :=
       (\<lambda>c req. Inr (if dreq_Afisafi req = IPv4Unicast
                      then streamOf [reply4] (Remote ''connection reset'')
                      else streamOf [reply6] EOF))\<rparr>"

text \<open>A reply whose BGP path has no AS-path segment, and a service that streams it after
  a well-formed reply.\<close>

definition replyNoSegment :: DumpRIBReply where
  "replyNoSegment =
     \<lparr>reply_Route =
        \<lparr>route_Pfx = ''198.51.100.0/24'',
         route_Paths =
           [\<lparr>path_Type = Path_BGP,
             path_BgpPath = \<lparr>bgp_AsPath = [], bgp_NextHop = ''192.0.2.1'', bgp_Med = 0,
                             bgp_LocalPref = 100\<rparr>\<rparr>]\<rparr>\<rparr>"

definition noSegmentRemote :: remote where
  "noSegmentRemote =
     exampleRemote\<lparr>rem_DumpRIB :=
       (\<lambda>c req. Inr (streamOf [reply4, replyNoSegment] EOF))\<rparr>"

text \<open>
  A source written with a dot, as the child-section notation of the INI library has it,
  and the same source written with a colon.
\<close>

definition dotConfig :: ini_file where
  "dotConfig =
     [\<lparr>sec_name = ''source.rs1'', sec_keys = [(''name'', ''RS1'')], sec_body = []\<rparr>,
      \<lparr>sec_name = ''source.rs1.gobgp'', sec_keys = [], sec_body = []\<rparr>]"

definition colonConfig :: ini_file where
  "colonConfig =
     [\<lparr>sec_name = ''source:rs1'', sec_keys = [(''name'', ''RS1'')], sec_body = []\<rparr>,
      \<lparr>sec_name = ''source:rs1.gobgp'', sec_keys = [], sec_body = []\<rparr>]"

text \<open>
  A birdwatcher source without a \<open>type\<close> key, a source with an unknown backend, a source
  without a backend section and a source with two. \<open>foundAt\<close> is a file system in which the
  named file exists, and \<open>parsesTo\<close> a parser that returns the given configuration.
\<close>

definition birdwatcherNoType :: ini_file where
  "birdwatcherNoType =
     [\<lparr>sec_name = ''source.rs1'', sec_keys = [(''name'', ''RS1'')], sec_body = []\<rparr>,
      \<lparr>sec_name = ''source.rs1.birdwatcher'', sec_keys = [(''api'', ''http://localhost:29184'')],
       sec_body = []\<rparr>]"

definition unknownBackend :: ini_file where
  "unknownBackend =
     [\<lparr>sec_name = ''source.rs1'', sec_keys = [(''name'', ''RS1'')], sec_body = []\<rparr>,
      \<lparr>sec_name = ''source.rs1.openbgpd'', sec_keys = [], sec_body = []\<rparr>]"

definition noBackend :: ini_file where
  "noBackend =
     [\<lparr>sec_name = ''source.rs1'', sec_keys = [(''name'', ''RS1'')], sec_body = []\<rparr>]"

definition twoBackends :: ini_file where
  "twoBackends =
     [\<lparr>sec_name = ''source.rs1'', sec_keys = [(''name'', ''RS1'')], sec_body = []\<rparr>,
      \<lparr>sec_name = ''source.rs1.gobgp'', sec_keys = [], sec_body = []\<rparr>,
      \<lparr>sec_name = ''source.rs1.bioris'', sec_keys = [], sec_body = []\<rparr>]"

definition foundAt :: "string \<Rightarrow> string \<Rightarrow> bool" where
  "foundAt name = (\<lambda>f. f \<noteq> name)"

definition parsesTo :: "ini_file \<Rightarrow> string \<Rightarrow> failure + ini_file" where
  "parsesTo config = (\<lambda>f. Inr config)"

text \<open>
  Two well-known communities, and a body that overrides the first, has a line without
  \<open>=\<close>, and adds a new community.
\<close>

definition exampleWellKnown :: BgpCommunities where
  "exampleWellKnown =
     map_of [([''65535'', ''666''], ''blackhole''), ([''65535'', ''65281''], ''no-export'')]"

definition exampleBody :: string where
  "exampleBody =
     ''65535:666 = drop here'' @ [CHR 0x0A] @ ''broken line'' @ [CHR 0x0A] @
     ''65000:1:1=customer''"

text \<open>A birdwatcher source whose \<open>type\<close> key stands in the source section itself.\<close>

definition inheritedType :: ini_file where
  "inheritedType =
     [\<lparr>sec_name = ''source.rs1'',
       sec_keys = [(''name'', ''RS1''), (''type'', ''multi_table'')], sec_body = []\<rparr>,
      \<lparr>sec_name = ''source.rs1.birdwatcher'', sec_keys = [], sec_body = []\<rparr>]"

section \<open>Evaluation lemmas\<close>

lemma Sprintf_d_65000: "Sprintf_d 65000 = ''65000''"
  unfolding Sprintf_d_def by (simp, (subst digits.simps, simp add: digitChar_def)+)

lemma KeyStrings_range:
  "map TrimSpace (Split ''65000:1000:5-9'' CHR '','') = [''65000:1000:5-9'']"
  by (simp add: Split_def TrimSpace_def spaceWidth_def spaceWidthRight_def asciiSpace_def
      unicodeSpaces_def)

lemma KeyStrings_short: "map TrimSpace (Split ''65000:1000'' CHR '','') = [''65000:1000'']"
  by (simp add: Split_def TrimSpace_def spaceWidth_def spaceWidthRight_def asciiSpace_def
      unicodeSpaces_def)

lemma SplitN_range: "SplitN ''65000:1000:5-9'' CHR '':'' 3 = [''65000'', ''1000'', ''5-9'']"
  by (simp add: numeral_3_eq_3)

lemma SplitN_short: "SplitN ''65000:1000'' CHR '':'' 3 = [''65000'', ''1000'']"
  by (simp add: numeral_3_eq_3)

lemma Split_range: "Split ''5-9'' CHR ''-'' = [''5'', ''9'']"
  by (simp add: Split_def)

lemma Sprintf_v_short: "Sprintf_v [''65000'', ''1000''] = ''[65000 1000]''"
  by (simp add: Sprintf_v_def)

section \<open>Splitting strings\<close>

lemma Cut_None: "Cut s sep = None \<longleftrightarrow> sep \<notin> set s"
  by (induction s) (auto split: option.splits)

lemma Cut_Some:
  "sep \<in> set s \<Longrightarrow>
   Cut s sep = Some (takeWhile (\<lambda>c. c \<noteq> sep) s, tl (dropWhile (\<lambda>c. c \<noteq> sep) s))"
  by (induction s) (auto split: option.splits simp: Cut_None)

lemma Cut_count:
  "Cut s sep = Some (a, b) \<Longrightarrow> count_list s sep = Suc (count_list b sep)"
  by (induction s arbitrary: a) (auto split: option.splits if_splits)

lemma Cut_count_None: "Cut s sep = None \<Longrightarrow> count_list s sep = 0"
  by (simp add: Cut_None)

lemma length_SplitN:
  "length (SplitN s sep (Suc n)) = Suc (min n (count_list s sep))"
proof (induction n arbitrary: s)
  case 0
  then show ?case by simp
next
  case (Suc n)
  show ?case
  proof (cases "Cut s sep")
    case None
    then show ?thesis by (simp add: Cut_count_None)
  next
    case (Some p)
    obtain a b where p: "p = (a, b)" by (cases p)
    with Some Suc [of b] show ?thesis by (simp add: Cut_count [of s sep a b])
  qed
qed

lemma length_Split: "length (Split s sep) = Suc (count_list s sep)"
  by (simp add: Split_def length_SplitN)

section \<open>RPKI derivation\<close>

text \<open>
  C2. With no \<open>invalid\<close> key in the \<open>rpki\<close> section (an absent key reads as the empty
  value) and the local ASN 65000 in the \<open>server\<close> section, the derived invalid triplet is
  \<open>["65000", "1000", "4", "*"]\<close>. With \<open>invalid = 65000:1000:5-9\<close> it is
  \<open>["65000", "1000", "5", "9"]\<close>. With \<open>invalid = 65000:1000\<close>, which has two
  colon-separated tokens only, the derivation returns a configuration error. This holds
  whatever else the configuration contains.
\<close>

theorem rpki_invalid_derivation:
  "(KeyString config (Section config ''rpki'') ''invalid'' = [] \<and>
    MustInt config (Section config ''server'') ''asn'' (- 1) = 65000 \<longrightarrow>
      (\<exists>r. getRpkiConfig config = Inr r \<and>
           rpki_Invalid r = [''65000'', ''1000'', ''4'', ''*''])) \<and>
   (KeyString config (Section config ''rpki'') ''invalid'' = ''65000:1000:5-9'' \<longrightarrow>
      (\<exists>r. getRpkiConfig config = Inr r \<and>
           rpki_Invalid r = [''65000'', ''1000'', ''5'', ''9''])) \<and>
   (KeyString config (Section config ''rpki'') ''invalid'' = ''65000:1000'' \<longrightarrow>
      getRpkiConfig config =
        Inl (Error (Errorf ''Unexpected rpki.Invalid configuration: [65000 1000]'')))"
  by (simp add: getRpkiConfig_def getOwnASN_def KeyStrings_def Let_def Sprintf_d_65000
      KeyStrings_range KeyStrings_short SplitN_range SplitN_short Split_range Sprintf_v_short)

theorem rpki_invalid_derivation_witness:
  "(\<exists>r. getRpkiConfig rpkiDefault = Inr r \<and>
        rpki_Invalid r = [''65000'', ''1000'', ''4'', ''*'']) \<and>
   (\<exists>r. getRpkiConfig rpkiRange = Inr r \<and>
        rpki_Invalid r = [''65000'', ''1000'', ''5'', ''9'']) \<and>
   getRpkiConfig rpkiShort =
     Inl (Error (Errorf ''Unexpected rpki.Invalid configuration: [65000 1000]''))"
proof -
  have a: "KeyString rpkiDefault (Section rpkiDefault ''rpki'') ''invalid'' = [] \<and>
           MustInt rpkiDefault (Section rpkiDefault ''server'') ''asn'' (- 1) = 65000"
    by (simp add: rpkiDefault_def Section_def KeyString_def GetKey_def parentNames_def
        MustInt_def ParseInt_def isDigit_def)
  have b: "KeyString rpkiRange (Section rpkiRange ''rpki'') ''invalid'' = ''65000:1000:5-9''"
    by (simp add: rpkiRange_def Section_def KeyString_def GetKey_def)
  have c: "KeyString rpkiShort (Section rpkiShort ''rpki'') ''invalid'' = ''65000:1000''"
    by (simp add: rpkiShort_def Section_def KeyString_def GetKey_def)
  show ?thesis
    using rpki_invalid_derivation [of rpkiDefault] rpki_invalid_derivation [of rpkiRange]
      rpki_invalid_derivation [of rpkiShort] a b c
    by blast
qed

section \<open>Filtered and not-exported routes of the BioRIS adapter\<close>

text \<open>
  C8. For every neighbour identifier, \<open>RoutesFiltered\<close> and \<open>RoutesNotExported\<close> return no
  error and a response whose \<open>Filtered\<close> (respectively \<open>NotExported\<close>) list is the empty,
  non-nil list. Neither takes the remote service as an argument, and both leave the
  adapter, with its connection handle, as it was, so that a following operation finds the
  client as it would have without the call: nothing is communicated.
\<close>

theorem routes_filtered_not_exported_empty:
  "(\<exists>resp. RoutesFiltered clock br neighbourId = (Inr resp, br) \<and>
           rr_Filtered resp = Some [] \<and> rr_Filtered resp \<noteq> None) \<and>
   (\<exists>resp. RoutesNotExported clock br neighbourId = (Inr resp, br) \<and>
           rr_NotExported resp = Some [] \<and> rr_NotExported resp \<noteq> None) \<and>
   getRISClient env (snd (RoutesFiltered clock br neighbourId)) = getRISClient env br \<and>
   getRISClient env (snd (RoutesNotExported clock br neighbourId)) = getRISClient env br"
proof -
  have filtered: "RoutesFiltered clock br neighbourId =
      (Inr \<lparr>rr_Api = getDefaultApiStatus (clock 0), rr_Imported = None,
            rr_Filtered = Some [], rr_NotExported = None\<rparr>, br)"
    by (simp add: RoutesFiltered_def)
  have notExported: "RoutesNotExported clock br neighbourId =
      (Inr \<lparr>rr_Api = getDefaultApiStatus (clock 0), rr_Imported = None,
            rr_Filtered = None, rr_NotExported = Some []\<rparr>, br)"
    by (simp add: RoutesNotExported_def)
  show ?thesis
    unfolding filtered notExported by simp
qed

section \<open>The registry caches one instance per descriptor\<close>

lemma getInstance_again:
  assumes "getInstance st self = (instance, st1, self1)"
  shows "getInstance st1 self1 = (instance, st1, self1)"
proof (cases "src_instance self")
  case (Some r)
  with assms show ?thesis by (auto simp: getInstance_def)
next
  case None
  with assms show ?thesis
    by (auto simp: getInstance_def NewBirdwatcher_def NewGoBGP_def alloc_def Let_def
        split: if_splits)
qed

lemma getInstance_Id: "getInstance st self = (instance, st1, self1) \<Longrightarrow> src_Id self1 = src_Id self"
  by (auto simp: getInstance_def NewBirdwatcher_def NewGoBGP_def alloc_def Let_def
      split: if_splits)

lemma getInstance_grows:
  "getInstance st self = (instance, st1, self1) \<Longrightarrow>
   length st1 \<le> Suc (length st) \<and> take (length st) st1 = st"
  by (auto simp: getInstance_def NewBirdwatcher_def NewGoBGP_def alloc_def Let_def
      split: if_splits)

lemma getInstance_iterate:
  "getInstance st1 self1 = (instance, st1, self1) \<Longrightarrow>
   ((\<lambda>(r, s, c). getInstance s c) ^^ n) (instance, st1, self1) = (instance, st1, self1)"
  by (induction n) simp_all

lemma SourceById_loop_bound:
  "SourceById_loop xs sourceId k = Some i \<Longrightarrow> k \<le> i \<and> i - k < length xs \<and> src_Id (xs ! (i - k)) = sourceId"
proof (induction xs arbitrary: k)
  case Nil
  then show ?case by simp
next
  case (Cons x xs)
  show ?case
  proof (cases "src_Id x = sourceId")
    case True
    with Cons.prems show ?thesis by simp
  next
    case False
    with Cons.prems have "SourceById_loop xs sourceId (Suc k) = Some i" by simp
    from Cons.IH [OF this] have ih: "Suc k \<le> i" "i - Suc k < length xs"
      "src_Id (xs ! (i - Suc k)) = sourceId" by auto
    from ih(1) have "i - k = Suc (i - Suc k)" by arith
    with ih show ?thesis by simp
  qed
qed

lemma SourceById_loop_same_ids:
  "map src_Id xs = map src_Id ys \<Longrightarrow> SourceById_loop xs sourceId k = SourceById_loop ys sourceId k"
proof (induction xs arbitrary: ys k)
  case Nil
  then show ?case by simp
next
  case (Cons x xs)
  then obtain y ys' where ys: "ys = y # ys'" by (cases ys) auto
  with Cons show ?case by auto
qed

lemma SourceInstanceById_again:
  assumes "SourceInstanceById st self sourceId = (instance, st1, self1)"
  shows "SourceInstanceById st1 self1 sourceId = (instance, st1, self1)"
proof (cases "SourceById self sourceId")
  case None
  with assms show ?thesis by (auto simp: SourceInstanceById_def)
next
  case (Some i)
  obtain r s c where g: "getInstance st (cfg_Sources self ! i) = (r, s, c)"
    by (cases "getInstance st (cfg_Sources self ! i)") auto
  from Some have bound: "i < length (cfg_Sources self)"
    using SourceById_loop_bound [of "cfg_Sources self" sourceId 0 i] by (simp add: SourceById_def)
  from assms Some g have eqs: "instance = r" "st1 = s"
    "self1 = self\<lparr>cfg_Sources := (cfg_Sources self)[i := c]\<rparr>"
    by (auto simp: SourceInstanceById_def)
  have ids: "map src_Id (cfg_Sources self1) = map src_Id (cfg_Sources self)"
    using getInstance_Id [OF g] bound
    by (simp add: eqs map_update list_update_same_conv)
  have "SourceById self1 sourceId = Some i"
    using Some SourceById_loop_same_ids [OF ids] by (simp add: SourceById_def)
  moreover have "cfg_Sources self1 ! i = c" using bound by (simp add: eqs)
  moreover have "getInstance s c = (r, s, c)" by (rule getInstance_again [OF g])
  ultimately show ?thesis by (simp add: SourceInstanceById_def eqs)
qed

lemma getInstance_first:
  assumes "getInstance st self = (instance, st1, self1)"
  shows "(src_instance self \<noteq> None \<longrightarrow> instance = src_instance self \<and> st1 = st \<and> self1 = self) \<and>
         (src_instance self = None \<and>
          (src_Type self = SOURCE_BIRDWATCHER \<or> src_Type self = SOURCE_GOBGP \<or>
           src_Type self = SOURCE_BIORIS) \<longrightarrow>
            instance = Some (length st) \<and> length st1 = Suc (length st) \<and>
            src_instance self1 = instance)"
proof (cases "src_instance self")
  case (Some r)
  with assms show ?thesis by (auto simp: getInstance_def)
next
  case None
  with assms show ?thesis
    by (auto simp: getInstance_def NewBirdwatcher_def NewGoBGP_def alloc_def Let_def
        split: if_splits)
qed

text \<open>
  C9. For every descriptor and every store of instances, a second call of \<open>getInstance\<close>
  returns the reference the first call returned and leaves the store and the descriptor
  as the first call left them, so nothing is constructed again; the same holds for any
  number of further calls. The first call adds at most one instance to the store and
  changes no instance that was there: with a filled slot it returns the slot and changes
  nothing, and with an empty slot and one of the three backend types it constructs one
  instance, returns the reference to it and stores that in the slot. Through the
  configuration, a second call of \<open>SourceInstanceById\<close> for the same identifier returns the
  same reference, store and configuration as the first.
\<close>

theorem getInstance_cached:
  "(getInstance st self = (instance, st1, self1) \<longrightarrow>
      getInstance st1 self1 = (instance, st1, self1) \<and>
      (\<forall>n. ((\<lambda>(r, s, c). getInstance s c) ^^ n) (instance, st1, self1) = (instance, st1, self1)) \<and>
      length st1 \<le> Suc (length st) \<and> take (length st) st1 = st \<and>
      (src_instance self \<noteq> None \<longrightarrow> instance = src_instance self \<and> st1 = st \<and> self1 = self) \<and>
      (src_instance self = None \<and>
       (src_Type self = SOURCE_BIRDWATCHER \<or> src_Type self = SOURCE_GOBGP \<or>
        src_Type self = SOURCE_BIORIS) \<longrightarrow>
         instance = Some (length st) \<and> length st1 = Suc (length st) \<and>
         src_instance self1 = instance)) \<and>
   (SourceInstanceById st config sourceId = (instance', st2, config2) \<longrightarrow>
      SourceInstanceById st2 config2 sourceId = (instance', st2, config2))"
  using getInstance_again [of st self "instance" st1 self1]
    getInstance_iterate [of st1 self1 "instance"]
    getInstance_grows [of st self "instance" st1 self1]
    getInstance_first [of st self "instance" st1 self1]
    SourceInstanceById_again [of st config sourceId instance' st2 config2]
  by blast

theorem getInstance_cached_witness:
  "getInstance [] bioDescriptor =
     (Some 0, [Source_BioRIS (NewBioRIS (src_BioRIS bioDescriptor))],
      bioDescriptor\<lparr>src_instance := Some 0\<rparr>) \<and>
   getInstance [Source_BioRIS (NewBioRIS (src_BioRIS bioDescriptor))]
       (bioDescriptor\<lparr>src_instance := Some 0\<rparr>) =
     (Some 0, [Source_BioRIS (NewBioRIS (src_BioRIS bioDescriptor))],
      bioDescriptor\<lparr>src_instance := Some 0\<rparr>) \<and>
   SourceInstanceById [] registryConfig ''rs1'' =
     (Some 0, [Source_BioRIS (NewBioRIS (src_BioRIS bioDescriptor))],
      registryConfig\<lparr>cfg_Sources := [bioDescriptor\<lparr>src_instance := Some 0\<rparr>]\<rparr>) \<and>
   SourceInstanceById [Source_BioRIS (NewBioRIS (src_BioRIS bioDescriptor))]
       (registryConfig\<lparr>cfg_Sources := [bioDescriptor\<lparr>src_instance := Some 0\<rparr>]\<rparr>) ''rs1'' =
     (Some 0, [Source_BioRIS (NewBioRIS (src_BioRIS bioDescriptor))],
      registryConfig\<lparr>cfg_Sources := [bioDescriptor\<lparr>src_instance := Some 0\<rparr>]\<rparr>)"
proof -
  have first: "getInstance [] bioDescriptor =
     (Some 0, [Source_BioRIS (NewBioRIS (src_BioRIS bioDescriptor))],
      bioDescriptor\<lparr>src_instance := Some 0\<rparr>)"
    by (simp add: getInstance_def bioDescriptor_def alloc_def)
  have src: "cfg_Sources registryConfig = [bioDescriptor]"
    by (simp add: registryConfig_def)
  have ident: "src_Id bioDescriptor = ''rs1''"
    by (simp add: bioDescriptor_def)
  have byId: "SourceInstanceById [] registryConfig ''rs1'' =
     (Some 0, [Source_BioRIS (NewBioRIS (src_BioRIS bioDescriptor))],
      registryConfig\<lparr>cfg_Sources := [bioDescriptor\<lparr>src_instance := Some 0\<rparr>]\<rparr>)"
    by (simp add: SourceInstanceById_def SourceById_def src ident first)
  show ?thesis
    using first byId
      getInstance_cached [of "[]" bioDescriptor "Some 0"
        "[Source_BioRIS (NewBioRIS (src_BioRIS bioDescriptor))]"
        "bioDescriptor\<lparr>src_instance := Some 0\<rparr>" registryConfig "''rs1''" "Some 0"
        "[Source_BioRIS (NewBioRIS (src_BioRIS bioDescriptor))]"
        "registryConfig\<lparr>cfg_Sources := [bioDescriptor\<lparr>src_instance := Some 0\<rparr>]\<rparr>"]
    by blast
qed

section \<open>Neighbours of the BioRIS adapter\<close>










lemma example_client:
  "getRISClient exampleRemote exampleBioRIS = (Inr 1, exampleBioRIS\<lparr>br_grpcConn := Some 1\<rparr>)"
  by (simp add: getRISClient_def exampleRemote_def exampleBioRIS_def NewBioRIS_def)

lemma reply4_ok: "wellFormed reply4"
  by (simp add: wellFormed_def reply4_def isBGP_def)

lemma reply6_ok: "wellFormed reply6"
  by (simp add: wellFormed_def reply6_def isBGP_def)

lemma routesOf_reply4:
  "routesOf reply4 =
     [\<lparr>ar_Id = ''192.0.2.0/24'', ar_Network = ''192.0.2.0/24'',
       ar_Bgp = \<lparr>bi_AsPath = [64500, 64496], bi_NextHop = ''192.0.2.1'', bi_Med = 0,
                 bi_LocalPref = 100\<rparr>\<rparr>]"
  by (simp add: routesOf_def reply4_def isBGP_def makeAliceRoute_def Let_def)

lemma routesOf_reply6:
  "routesOf reply6 =
     [\<lparr>ar_Id = ''2001:db8::/32'', ar_Network = ''2001:db8::/32'',
       ar_Bgp = \<lparr>bi_AsPath = [64501], bi_NextHop = ''2001:db8::1'', bi_Med = 10,
                 bi_LocalPref = 200\<rparr>\<rparr>]"
  by (simp add: routesOf_def reply6_def isBGP_def makeAliceRoute_def Let_def)




section \<open>Route retrieval of the BioRIS adapter\<close>

lemma paths_loop_ok:
  "list_all (\<lambda>path. bgp_AsPath (path_BgpPath path) \<noteq> []) (filter isBGP paths) \<Longrightarrow>
   paths_loop pfx paths routes =
     Inr (routes @ concat (map (\<lambda>path. case makeAliceRoute pfx (path_BgpPath path) of
                                          Inr r \<Rightarrow> [r] | Inl _ \<Rightarrow> [])
                               (filter isBGP paths)))"
proof (induction paths arbitrary: routes)
  case Nil
  then show ?case by simp
next
  case (Cons p ps)
  show ?case
  proof (cases "isBGP p")
    case True
    with Cons.prems obtain seg segs where "bgp_AsPath (path_BgpPath p) = seg # segs"
      by (cases "bgp_AsPath (path_BgpPath p)") auto
    then obtain r where r: "makeAliceRoute pfx (path_BgpPath p) = Inr r"
      by (simp add: makeAliceRoute_def)
    from Cons.prems True have "list_all (\<lambda>path. bgp_AsPath (path_BgpPath path) \<noteq> []) (filter isBGP ps)"
      by simp
    from Cons.IH [OF this] True r show ?thesis
      by (simp add: isBGP_def)
  next
    case False
    with Cons.prems have "list_all (\<lambda>path. bgp_AsPath (path_BgpPath path) \<noteq> []) (filter isBGP ps)"
      by simp
    from Cons.IH [OF this] False show ?thesis
      by (simp add: isBGP_def)
  qed
qed

lemma paths_loop_panic:
  "\<not> list_all (\<lambda>path. bgp_AsPath (path_BgpPath path) \<noteq> []) (filter isBGP paths) \<Longrightarrow>
   paths_loop pfx paths routes = Inl (Panic ''index out of range [0] with length 0'')"
proof (induction paths arbitrary: routes)
  case Nil
  then show ?case by simp
next
  case (Cons p ps)
  show ?case
  proof (cases "isBGP p")
    case True
    show ?thesis
    proof (cases "bgp_AsPath (path_BgpPath p)")
      case Nil
      with True show ?thesis by (simp add: isBGP_def makeAliceRoute_def)
    next
      case (Cons seg segs)
      then obtain r where r: "makeAliceRoute pfx (path_BgpPath p) = Inr r"
        by (simp add: makeAliceRoute_def)
      from Cons.prems True Cons
      have "\<not> list_all (\<lambda>path. bgp_AsPath (path_BgpPath path) \<noteq> []) (filter isBGP ps)"
        by simp
      from Cons.IH [OF this] True r show ?thesis by (simp add: isBGP_def)
    qed
  next
    case False
    with Cons.prems
    have "\<not> list_all (\<lambda>path. bgp_AsPath (path_BgpPath path) \<noteq> []) (filter isBGP ps)"
      by simp
    from Cons.IH [OF this] False show ?thesis by (simp add: isBGP_def)
  qed
qed

lemma replies_loop_ok:
  "list_all wellFormed ms \<Longrightarrow> replies_loop ms routes = Inr (routes @ concat (map routesOf ms))"
proof (induction ms arbitrary: routes)
  case Nil
  then show ?case by simp
next
  case (Cons m ms)
  from Cons.prems have wf: "wellFormed m" and rest: "list_all wellFormed ms" by simp_all
  from wf have "paths_loop (route_Pfx (reply_Route m)) (route_Paths (reply_Route m)) routes =
      Inr (routes @ routesOf m)"
    unfolding wellFormed_def routesOf_def by (rule paths_loop_ok)
  with Cons.IH [OF rest] show ?case by simp
qed

lemma replies_loop_panic:
  "list_all wellFormed pre \<Longrightarrow> \<not> wellFormed m \<Longrightarrow>
   replies_loop (pre @ m # post) routes = Inl (Panic ''index out of range [0] with length 0'')"
proof (induction pre arbitrary: routes)
  case Nil
  then show ?case
    using paths_loop_panic [of "route_Paths (reply_Route m)" "route_Pfx (reply_Route m)" routes]
    by (simp add: wellFormed_def)
next
  case (Cons p pre)
  from Cons.prems have wf: "wellFormed p" and rest: "list_all wellFormed pre" by simp_all
  from wf have "paths_loop (route_Pfx (reply_Route p)) (route_Paths (reply_Route p)) routes =
      Inr (routes @ routesOf p)"
    unfolding wellFormed_def routesOf_def by (rule paths_loop_ok)
  with Cons.IH [OF rest Cons.prems(2)] show ?case by simp
qed

lemma recv_loop_fails:
  "receives client ms \<Longrightarrow> k \<le> length ms \<Longrightarrow> replies_loop (drop k ms) routes = Inl f \<Longrightarrow>
   recv_loop client k routes = Some (Inl f)"
proof (induction "length ms - k" arbitrary: k routes)
  case 0
  then show ?case by simp
next
  case (Suc d)
  then have k: "k < length ms" by simp
  with Suc.prems(1) have msg: "client k = Msg (ms ! k)" by (simp add: receives_def)
  from k have dr: "drop k ms = ms ! k # drop (Suc k) ms" by (simp add: Cons_nth_drop_Suc)
  show ?case
  proof (cases "paths_loop (route_Pfx (reply_Route (ms ! k))) (route_Paths (reply_Route (ms ! k))) routes")
    case (Inl g)
    with Suc.prems(3) dr have "g = f" by simp
    with Inl msg show ?thesis by (subst recv_loop.simps) simp
  next
    case (Inr routes')
    with Suc.prems(3) dr have next_fails: "replies_loop (drop (Suc k) ms) routes' = Inl f" by simp
    have "recv_loop client (Suc k) routes' = Some (Inl f)"
      using Suc.hyps(1) [of "Suc k" routes'] Suc.hyps(2) Suc.prems(1) k next_fails by simp
    with Inr msg show ?thesis by (subst recv_loop.simps) simp
  qed
qed

lemma recv_loop_ends:
  "delivers client ms e \<Longrightarrow> k \<le> length ms \<Longrightarrow> replies_loop (drop k ms) routes = Inr routes' \<Longrightarrow>
   recv_loop client k routes =
     (if e = EOF then Some (Inr routes') else Some (Inl (Error (Wrap ''Receive failed'' e))))"
proof (induction "length ms - k" arbitrary: k routes)
  case 0
  then have "k = length ms" by simp
  with "0.prems" show ?case
    by (subst recv_loop.simps) (simp add: delivers_def)
next
  case (Suc d)
  then have k: "k < length ms" by simp
  with Suc.prems(1) have msg: "client k = Msg (ms ! k)" by (simp add: delivers_def receives_def)
  from k have dr: "drop k ms = ms ! k # drop (Suc k) ms" by (simp add: Cons_nth_drop_Suc)
  from Suc.prems(3) dr obtain mid where
    mid: "paths_loop (route_Pfx (reply_Route (ms ! k))) (route_Paths (reply_Route (ms ! k))) routes = Inr mid"
    and rest: "replies_loop (drop (Suc k) ms) mid = Inr routes'"
    by (auto split: sum.splits)
  have "recv_loop client (Suc k) mid =
     (if e = EOF then Some (Inr routes') else Some (Inl (Error (Wrap ''Receive failed'' e))))"
    using Suc.hyps(1) [of "Suc k" mid] Suc.hyps(2) Suc.prems(1) k rest by simp
  with mid msg show ?case by (subst recv_loop.simps) simp
qed

lemma delivers_streamOf: "delivers (streamOf ms e) ms e"
  by (simp add: delivers_def receives_def streamOf_def)

lemma routesOf_length:
  "wellFormed m \<Longrightarrow> length (routesOf m) = length (filter isBGP (route_Paths (reply_Route m)))"
proof -
  have "list_all (\<lambda>path. bgp_AsPath (path_BgpPath path) \<noteq> []) ps \<Longrightarrow>
        length (concat (map (\<lambda>path. case makeAliceRoute pfx (path_BgpPath path) of
                                      Inr r \<Rightarrow> [r] | Inl _ \<Rightarrow> []) ps)) = length ps" for ps pfx
  proof (induction ps)
    case Nil
    then show ?case by simp
  next
    case (Cons p ps)
    then obtain seg segs where "bgp_AsPath (path_BgpPath p) = seg # segs"
      by (cases "bgp_AsPath (path_BgpPath p)") auto
    then obtain r where "makeAliceRoute pfx (path_BgpPath p) = Inr r"
      by (simp add: makeAliceRoute_def)
    with Cons show ?case by simp
  qed
  then show "wellFormed m \<Longrightarrow> ?thesis"
    by (simp add: wellFormed_def routesOf_def)
qed

lemma afi_loop_step:
  "afi_loop env br risclient neighbor (afi # afis) routes =
     (case rem_DumpRIB env risclient (ribRequest br afi neighbor) of
        Inl e \<Rightarrow> Some (Inl (Error (Wrap ''Could not dump RIB'' e)))
      | Inr client \<Rightarrow>
          (case recv_loop client 0 routes of
             None \<Rightarrow> None
           | Some (Inl f) \<Rightarrow> Some (Inl f)
           | Some (Inr routes') \<Rightarrow> afi_loop env br risclient neighbor afis routes'))"
  by (simp add: ribRequest_def)

lemma recv_loop_clean:
  assumes "delivers client ms e" "list_all wellFormed ms"
  shows "recv_loop client 0 routes =
     (if e = EOF then Some (Inr (routes @ concat (map routesOf ms)))
      else Some (Inl (Error (Wrap ''Receive failed'' e))))"
  using recv_loop_ends [OF assms(1), of 0 routes] replies_loop_ok [OF assms(2), of routes]
  by simp

lemma recv_loop_panics:
  assumes "receives client (pre @ [m])" "list_all wellFormed pre" "\<not> wellFormed m"
  shows "recv_loop client 0 routes = Some (Inl (Panic ''index out of range [0] with length 0''))"
  using recv_loop_fails [OF assms(1), of 0 routes] replies_loop_panic [OF assms(2,3), of "[]" routes]
  by simp

lemma getRoutes_run:
  assumes "getRISClient env br = (Inr risclient, br')"
  shows "getRoutes env clock br neighbor =
     (case afi_loop env br' risclient neighbor [IPv4Unicast, IPv6Unicast] [] of
        None \<Rightarrow> None
      | Some (Inl f) \<Rightarrow> Some (Inl f, br')
      | Some (Inr routes) \<Rightarrow> Some (Inr (importedResponse (clock 0) routes), br'))"
  unfolding getRoutes_def importedResponse_def by (simp add: assms del: afi_loop.simps)

text \<open>
  C7. For every neighbour filter: when the client cannot be obtained, or a \<open>DumpRIB\<close> call
  fails, or a stream ends with an error other than \<open>io.EOF\<close>, \<open>getRoutes\<close> returns that
  error wrapped and no response, whatever the other address family holds; the IPv6 call is
  reached only after the IPv4 stream has ended with \<open>io.EOF\<close>. When both streams end with
  \<open>io.EOF\<close>, the response holds the translations of the BGP paths of the IPv4 replies, in
  stream order and path order, followed by those of the IPv6 replies, nothing sorted and
  nothing removed, and each reply contributes as many routes as it has paths tagged as BGP.
  The replies are taken to be well formed (each BGP path has an AS-path segment, see C10).
\<close>

theorem getRoutes_accumulates:
  "(getRISClient env br = (Inl e0, br') \<longrightarrow>
      getRoutes env clock br neighbor = Some (Inl (Error (Wrap ''Could not get RIB client'' e0)), br')) \<and>
   (getRISClient env br = (Inr risclient, br') \<longrightarrow>
     (rem_DumpRIB env risclient (ribRequest br' IPv4Unicast neighbor) = Inl e \<longrightarrow>
        getRoutes env clock br neighbor = Some (Inl (Error (Wrap ''Could not dump RIB'' e)), br')) \<and>
     (rem_DumpRIB env risclient (ribRequest br' IPv4Unicast neighbor) = Inr s4 \<and>
      delivers s4 ms4 e4 \<and> list_all wellFormed ms4 \<longrightarrow>
        (e4 \<noteq> EOF \<longrightarrow>
           getRoutes env clock br neighbor = Some (Inl (Error (Wrap ''Receive failed'' e4)), br')) \<and>
        (e4 = EOF \<longrightarrow>
           (rem_DumpRIB env risclient (ribRequest br' IPv6Unicast neighbor) = Inl e \<longrightarrow>
              getRoutes env clock br neighbor =
                Some (Inl (Error (Wrap ''Could not dump RIB'' e)), br')) \<and>
           (rem_DumpRIB env risclient (ribRequest br' IPv6Unicast neighbor) = Inr s6 \<and>
            delivers s6 ms6 e6 \<and> list_all wellFormed ms6 \<longrightarrow>
              (e6 \<noteq> EOF \<longrightarrow>
                 getRoutes env clock br neighbor =
                   Some (Inl (Error (Wrap ''Receive failed'' e6)), br')) \<and>
              (e6 = EOF \<longrightarrow>
                 getRoutes env clock br neighbor =
                   Some (Inr (importedResponse (clock 0)
                                (concat (map routesOf ms4) @ concat (map routesOf ms6))), br') \<and>
                 (\<forall>m \<in> set (ms4 @ ms6).
                    length (routesOf m) =
                      length (filter isBGP (route_Paths (reply_Route m)))))))))"
proof (intro conjI impI)
  assume "getRISClient env br = (Inl e0, br')"
  then show "getRoutes env clock br neighbor =
      Some (Inl (Error (Wrap ''Could not get RIB client'' e0)), br')"
    by (simp add: getRoutes_def)
next
  assume c: "getRISClient env br = (Inr risclient, br')"
    and "rem_DumpRIB env risclient (ribRequest br' IPv4Unicast neighbor) = Inl e"
  then show "getRoutes env clock br neighbor = Some (Inl (Error (Wrap ''Could not dump RIB'' e)), br')"
    by (simp add: getRoutes_run [OF c] afi_loop_step del: afi_loop.simps(2))
next
  assume c: "getRISClient env br = (Inr risclient, br')"
    and h: "rem_DumpRIB env risclient (ribRequest br' IPv4Unicast neighbor) = Inr s4 \<and>
      delivers s4 ms4 e4 \<and> list_all wellFormed ms4"
    and e: "e4 \<noteq> EOF"
  from h have r4: "recv_loop s4 0 [] = Some (Inl (Error (Wrap ''Receive failed'' e4)))"
    using recv_loop_clean [of s4 ms4 e4 "[]"] e by simp
  with h show "getRoutes env clock br neighbor = Some (Inl (Error (Wrap ''Receive failed'' e4)), br')"
    by (simp add: getRoutes_run [OF c] afi_loop_step del: afi_loop.simps(2))
next
  assume c: "getRISClient env br = (Inr risclient, br')"
    and h: "rem_DumpRIB env risclient (ribRequest br' IPv4Unicast neighbor) = Inr s4 \<and>
      delivers s4 ms4 e4 \<and> list_all wellFormed ms4"
    and e: "e4 = EOF"
    and h6: "rem_DumpRIB env risclient (ribRequest br' IPv6Unicast neighbor) = Inl e"
  from h have r4: "recv_loop s4 0 [] = Some (Inr (concat (map routesOf ms4)))"
    using recv_loop_clean [of s4 ms4 e4 "[]"] e by simp
  with h h6 show "getRoutes env clock br neighbor = Some (Inl (Error (Wrap ''Could not dump RIB'' e)), br')"
    by (simp add: getRoutes_run [OF c] afi_loop_step del: afi_loop.simps(2))
next
  assume c: "getRISClient env br = (Inr risclient, br')"
    and h: "rem_DumpRIB env risclient (ribRequest br' IPv4Unicast neighbor) = Inr s4 \<and>
      delivers s4 ms4 e4 \<and> list_all wellFormed ms4"
    and e: "e4 = EOF"
    and h6: "rem_DumpRIB env risclient (ribRequest br' IPv6Unicast neighbor) = Inr s6 \<and>
      delivers s6 ms6 e6 \<and> list_all wellFormed ms6"
    and e': "e6 \<noteq> EOF"
  from h have r4: "recv_loop s4 0 [] = Some (Inr (concat (map routesOf ms4)))"
    using recv_loop_clean [of s4 ms4 e4 "[]"] e by simp
  from h6 have r6: "recv_loop s6 0 (concat (map routesOf ms4)) =
      Some (Inl (Error (Wrap ''Receive failed'' e6)))"
    using recv_loop_clean [of s6 ms6 e6 "concat (map routesOf ms4)"] e' by simp
  from h h6 r4 r6 show "getRoutes env clock br neighbor =
      Some (Inl (Error (Wrap ''Receive failed'' e6)), br')"
    by (simp add: getRoutes_run [OF c] afi_loop_step del: afi_loop.simps(2))
next
  assume c: "getRISClient env br = (Inr risclient, br')"
    and h: "rem_DumpRIB env risclient (ribRequest br' IPv4Unicast neighbor) = Inr s4 \<and>
      delivers s4 ms4 e4 \<and> list_all wellFormed ms4"
    and e: "e4 = EOF"
    and h6: "rem_DumpRIB env risclient (ribRequest br' IPv6Unicast neighbor) = Inr s6 \<and>
      delivers s6 ms6 e6 \<and> list_all wellFormed ms6"
    and e': "e6 = EOF"
  from h have r4: "recv_loop s4 0 [] = Some (Inr (concat (map routesOf ms4)))"
    using recv_loop_clean [of s4 ms4 e4 "[]"] e by simp
  from h6 have r6: "recv_loop s6 0 (concat (map routesOf ms4)) =
      Some (Inr (concat (map routesOf ms4) @ concat (map routesOf ms6)))"
    using recv_loop_clean [of s6 ms6 e6 "concat (map routesOf ms4)"] e' by simp
  from h h6 r4 r6 show "getRoutes env clock br neighbor =
      Some (Inr (importedResponse (clock 0)
                   (concat (map routesOf ms4) @ concat (map routesOf ms6))), br')"
    by (simp add: getRoutes_run [OF c] afi_loop_step del: afi_loop.simps(2))
  from h h6 show "\<forall>m \<in> set (ms4 @ ms6).
      length (routesOf m) = length (filter isBGP (route_Paths (reply_Route m)))"
    by (auto simp: list_all_iff routesOf_length)
qed

theorem getRoutes_accumulates_witness:
  "getRoutes exampleRemote exampleClock exampleBioRIS [] =
     Some (Inr (importedResponse (exampleClock 0)
                  [\<lparr>ar_Id = ''192.0.2.0/24'', ar_Network = ''192.0.2.0/24'',
                    ar_Bgp = \<lparr>bi_AsPath = [64500, 64496], bi_NextHop = ''192.0.2.1'',
                              bi_Med = 0, bi_LocalPref = 100\<rparr>\<rparr>,
                   \<lparr>ar_Id = ''2001:db8::/32'', ar_Network = ''2001:db8::/32'',
                    ar_Bgp = \<lparr>bi_AsPath = [64501], bi_NextHop = ''2001:db8::1'',
                              bi_Med = 10, bi_LocalPref = 200\<rparr>\<rparr>]),
           exampleBioRIS\<lparr>br_grpcConn := Some 1\<rparr>) \<and>
   getRoutes resetRemote exampleClock exampleBioRIS [] =
     Some (Inl (Error (Wrap ''Receive failed'' (Remote ''connection reset''))),
           exampleBioRIS\<lparr>br_grpcConn := Some 1\<rparr>)"
proof -
  let ?br = "exampleBioRIS\<lparr>br_grpcConn := Some 1\<rparr>"
  have c2: "getRISClient resetRemote exampleBioRIS = (Inr 1, ?br)"
    by (simp add: getRISClient_def resetRemote_def exampleRemote_def exampleBioRIS_def
        NewBioRIS_def)
  have d4: "rem_DumpRIB exampleRemote 1 (ribRequest ?br IPv4Unicast []) =
      Inr (streamOf [reply4] EOF)"
    by (simp add: exampleRemote_def ribRequest_def)
  have d6: "rem_DumpRIB exampleRemote 1 (ribRequest ?br IPv6Unicast []) =
      Inr (streamOf [reply6] EOF)"
    by (simp add: exampleRemote_def ribRequest_def)
  have r4: "rem_DumpRIB resetRemote 1 (ribRequest ?br IPv4Unicast []) =
      Inr (streamOf [reply4] (Remote ''connection reset''))"
    by (simp add: resetRemote_def ribRequest_def)
  have ok: "getRoutes exampleRemote exampleClock exampleBioRIS [] =
      Some (Inr (importedResponse (exampleClock 0)
                   (concat (map routesOf [reply4]) @ concat (map routesOf [reply6]))), ?br)"
    using getRoutes_accumulates [of exampleRemote exampleBioRIS _ ?br exampleClock "[]" 1 _
        "streamOf [reply4] EOF" "[reply4]" EOF "streamOf [reply6] EOF" "[reply6]" EOF]
      example_client d4 d6 delivers_streamOf [of "[reply4]" EOF]
      delivers_streamOf [of "[reply6]" EOF] reply4_ok reply6_ok
    by simp
  have broken: "getRoutes resetRemote exampleClock exampleBioRIS [] =
      Some (Inl (Error (Wrap ''Receive failed'' (Remote ''connection reset''))), ?br)"
    using getRoutes_accumulates [of resetRemote exampleBioRIS _ ?br exampleClock "[]" 1 _
        "streamOf [reply4] (Remote ''connection reset'')" "[reply4]" "Remote ''connection reset''"]
      c2 r4 delivers_streamOf [of "[reply4]" "Remote ''connection reset''"] reply4_ok
    by simp
  from ok broken show ?thesis
    by (simp add: routesOf_reply4 routesOf_reply6)
qed

text \<open>
  C10. \<open>makeAliceRoute\<close> panics with an index error exactly when the AS-path segment list
  of the BGP path is empty, and returns a route otherwise. A reply is well formed exactly
  when none of its paths tagged as BGP has an empty segment list. When a stream, of either
  address family, receives a reply that is not well formed after well-formed ones,
  \<open>getRoutes\<close> ends in that panic: the retrieval needs every BGP path to have a segment.
\<close>

theorem makeAliceRoute_needs_segment:
  "(bgp_AsPath bgpPath = [] \<longrightarrow>
      makeAliceRoute pfx bgpPath = Inl (Panic ''index out of range [0] with length 0'')) \<and>
   (bgp_AsPath bgpPath \<noteq> [] \<longrightarrow> (\<exists>r. makeAliceRoute pfx bgpPath = Inr r)) \<and>
   (wellFormed m \<longleftrightarrow>
      (\<forall>path \<in> set (route_Paths (reply_Route m)).
         path_Type path = Path_BGP \<longrightarrow> bgp_AsPath (path_BgpPath path) \<noteq> [])) \<and>
   (getRISClient env br = (Inr risclient, br') \<and>
    rem_DumpRIB env risclient (ribRequest br' IPv4Unicast neighbor) = Inr s4 \<and>
    receives s4 (pre @ [m]) \<and> list_all wellFormed pre \<and> \<not> wellFormed m \<longrightarrow>
      getRoutes env clock br neighbor =
        Some (Inl (Panic ''index out of range [0] with length 0''), br')) \<and>
   (getRISClient env br = (Inr risclient, br') \<and>
    rem_DumpRIB env risclient (ribRequest br' IPv4Unicast neighbor) = Inr s4 \<and>
    delivers s4 ms4 EOF \<and> list_all wellFormed ms4 \<and>
    rem_DumpRIB env risclient (ribRequest br' IPv6Unicast neighbor) = Inr s6 \<and>
    receives s6 (pre @ [m]) \<and> list_all wellFormed pre \<and> \<not> wellFormed m \<longrightarrow>
      getRoutes env clock br neighbor =
        Some (Inl (Panic ''index out of range [0] with length 0''), br'))"
proof (intro conjI impI)
  assume "bgp_AsPath bgpPath = []"
  then show "makeAliceRoute pfx bgpPath = Inl (Panic ''index out of range [0] with length 0'')"
    by (simp add: makeAliceRoute_def)
next
  assume "bgp_AsPath bgpPath \<noteq> []"
  then show "\<exists>r. makeAliceRoute pfx bgpPath = Inr r"
    by (cases "bgp_AsPath bgpPath") (simp_all add: makeAliceRoute_def)
next
  show "wellFormed m \<longleftrightarrow>
      (\<forall>path \<in> set (route_Paths (reply_Route m)).
         path_Type path = Path_BGP \<longrightarrow> bgp_AsPath (path_BgpPath path) \<noteq> [])"
    by (auto simp: wellFormed_def list_all_iff isBGP_def)
next
  assume h: "getRISClient env br = (Inr risclient, br') \<and>
    rem_DumpRIB env risclient (ribRequest br' IPv4Unicast neighbor) = Inr s4 \<and>
    receives s4 (pre @ [m]) \<and> list_all wellFormed pre \<and> \<not> wellFormed m"
  then have c: "getRISClient env br = (Inr risclient, br')" by simp
  from h have "recv_loop s4 0 [] = Some (Inl (Panic ''index out of range [0] with length 0''))"
    using recv_loop_panics [of s4 pre m "[]"] by simp
  with h show "getRoutes env clock br neighbor =
        Some (Inl (Panic ''index out of range [0] with length 0''), br')"
    by (simp add: getRoutes_run [OF c] afi_loop_step del: afi_loop.simps(2))
next
  assume h: "getRISClient env br = (Inr risclient, br') \<and>
    rem_DumpRIB env risclient (ribRequest br' IPv4Unicast neighbor) = Inr s4 \<and>
    delivers s4 ms4 EOF \<and> list_all wellFormed ms4 \<and>
    rem_DumpRIB env risclient (ribRequest br' IPv6Unicast neighbor) = Inr s6 \<and>
    receives s6 (pre @ [m]) \<and> list_all wellFormed pre \<and> \<not> wellFormed m"
  then have c: "getRISClient env br = (Inr risclient, br')" by simp
  from h have r4: "recv_loop s4 0 [] = Some (Inr (concat (map routesOf ms4)))"
    using recv_loop_clean [of s4 ms4 EOF "[]"] by simp
  from h have "recv_loop s6 0 (concat (map routesOf ms4)) =
      Some (Inl (Panic ''index out of range [0] with length 0''))"
    using recv_loop_panics [of s6 pre m "concat (map routesOf ms4)"] by simp
  with h r4 show "getRoutes env clock br neighbor =
        Some (Inl (Panic ''index out of range [0] with length 0''), br')"
    by (simp add: getRoutes_run [OF c] afi_loop_step del: afi_loop.simps(2))
qed

theorem makeAliceRoute_needs_segment_witness:
  "makeAliceRoute ''198.51.100.0/24''
       \<lparr>bgp_AsPath = [], bgp_NextHop = ''192.0.2.1'', bgp_Med = 0, bgp_LocalPref = 100\<rparr> =
     Inl (Panic ''index out of range [0] with length 0'') \<and>
   (\<exists>r. makeAliceRoute ''192.0.2.0/24''
           \<lparr>bgp_AsPath = [\<lparr>seg_Asns = [64500, 64496]\<rparr>], bgp_NextHop = ''192.0.2.1'',
            bgp_Med = 0, bgp_LocalPref = 100\<rparr> = Inr r) \<and>
   \<not> wellFormed replyNoSegment \<and>
   getRoutes noSegmentRemote exampleClock exampleBioRIS [] =
     Some (Inl (Panic ''index out of range [0] with length 0''),
           exampleBioRIS\<lparr>br_grpcConn := Some 1\<rparr>)"
proof -
  let ?br = "exampleBioRIS\<lparr>br_grpcConn := Some 1\<rparr>"
  let ?empty = "\<lparr>bgp_AsPath = [], bgp_NextHop = ''192.0.2.1'', bgp_Med = 0,
                 bgp_LocalPref = 100\<rparr>"
  let ?full = "\<lparr>bgp_AsPath = [\<lparr>seg_Asns = [64500, 64496]\<rparr>], bgp_NextHop = ''192.0.2.1'',
                bgp_Med = 0, bgp_LocalPref = 100\<rparr>"
  have c: "getRISClient noSegmentRemote exampleBioRIS = (Inr 1, ?br)"
    by (simp add: getRISClient_def noSegmentRemote_def exampleRemote_def exampleBioRIS_def
        NewBioRIS_def)
  have d: "rem_DumpRIB noSegmentRemote 1 (ribRequest ?br IPv4Unicast []) =
      Inr (streamOf [reply4, replyNoSegment] EOF)"
    by (simp add: noSegmentRemote_def ribRequest_def)
  have rc: "receives (streamOf [reply4, replyNoSegment] EOF) ([reply4] @ [replyNoSegment])"
    using delivers_streamOf [of "[reply4, replyNoSegment]" EOF] by (simp add: delivers_def)
  have bad: "\<not> wellFormed replyNoSegment"
    by (simp add: wellFormed_def replyNoSegment_def isBGP_def)
  have pre: "list_all wellFormed [reply4]"
    by (simp add: reply4_ok)
  have a: "makeAliceRoute ''198.51.100.0/24'' ?empty =
      Inl (Panic ''index out of range [0] with length 0'')"
    using makeAliceRoute_needs_segment [of ?empty "''198.51.100.0/24''"] by simp
  have b: "\<exists>r. makeAliceRoute ''192.0.2.0/24'' ?full = Inr r"
    using makeAliceRoute_needs_segment [of ?full "''192.0.2.0/24''"] by simp
  have g: "getRoutes noSegmentRemote exampleClock exampleBioRIS [] =
      Some (Inl (Panic ''index out of range [0] with length 0''), ?br)"
    using makeAliceRoute_needs_segment [of _ _ replyNoSegment noSegmentRemote exampleBioRIS 1
        ?br "[]" "streamOf [reply4, replyNoSegment] EOF" "[reply4]" exampleClock]
      c d rc bad pre
    by blast
  from a b bad g show ?thesis by blast
qed

section \<open>Discovery of the sources\<close>

lemma isSourceBase_count: "isSourceBase section \<longleftrightarrow> count_list (sec_name section) CHR ''.'' = 1"
  by (simp add: isSourceBase_def length_Split)

lemma HasPrefix_append: "HasPrefix s pre \<longleftrightarrow> (\<exists>rest. s = pre @ rest)"
proof
  assume "HasPrefix s pre"
  then have "s = pre @ drop (length pre) s"
    by (metis HasPrefix_def append_take_drop_id)
  then show "\<exists>rest. s = pre @ rest" ..
next
  assume "\<exists>rest. s = pre @ rest"
  then show "HasPrefix s pre" by (auto simp: HasPrefix_def)
qed

lemma sourceSections_iff:
  "section \<in> set (sourceSections config) \<longleftrightarrow>
     section \<in> set config \<and>
     (\<exists>ident. sec_name section = ''source.'' @ ident \<and> CHR ''.'' \<notin> set ident)"
proof -
  have "HasPrefix n ''source.'' \<and> count_list n CHR ''.'' = 1 \<longleftrightarrow>
        (\<exists>ident. n = ''source.'' @ ident \<and> CHR ''.'' \<notin> set ident)" for n
  proof
    assume h: "HasPrefix n ''source.'' \<and> count_list n CHR ''.'' = 1"
    then obtain rest where r: "n = ''source.'' @ rest" by (auto simp: HasPrefix_append)
    with h have "count_list rest CHR ''.'' = 0" by simp
    then have "CHR ''.'' \<notin> set rest" by (simp add: count_list_0_iff)
    with r show "\<exists>ident. n = ''source.'' @ ident \<and> CHR ''.'' \<notin> set ident" by blast
  next
    assume "\<exists>ident. n = ''source.'' @ ident \<and> CHR ''.'' \<notin> set ident"
    then obtain ident where i: "n = ''source.'' @ ident" "CHR ''.'' \<notin> set ident" by blast
    then have "count_list ident CHR ''.'' = 0" by (simp add: count_list_0_iff)
    with i show "HasPrefix n ''source.'' \<and> count_list n CHR ''.'' = 1"
      by (simp add: HasPrefix_append)
  qed
  then show ?thesis
    by (auto simp: sourceSections_def ChildSections_def isSourceBase_count)
qed

lemma sourceSections_length:
  "section \<in> set (sourceSections config) \<Longrightarrow> 7 \<le> length (sec_name section)"
  by (auto simp: sourceSections_iff)

lemma getSource_Inr:
  "getSource config order section = Inr sc \<Longrightarrow>
   src_Id sc = drop 7 (sec_name section) \<and> src_Order sc = order"
  by (auto simp: getSource_def Let_def split: if_splits)

lemma getSources_loop_skip:
  "getSources_loop config sections order sources =
   getSources_loop config (filter isSourceBase sections) order sources"
  by (induction sections arbitrary: order sources) (auto split: sum.splits)

lemma upt_shift: "map (\<lambda>i. order + int i) [0..<Suc n] = order # map (\<lambda>i. (order + 1) + int i) [0..<n]"
proof -
  have "map (\<lambda>i. order + int i) [0..<Suc n] = order # map ((\<lambda>i. order + int i) \<circ> Suc) [0..<n]"
    by (simp only: map_upt_Suc) simp
  also have "map ((\<lambda>i. order + int i) \<circ> Suc) [0..<n] = map (\<lambda>i. (order + 1) + int i) [0..<n]"
    by (rule map_cong) (simp_all add: algebra_simps)
  finally show ?thesis .
qed

lemma getSources_loop_result:
  "getSources_loop config sections order acc = Inr sources \<Longrightarrow>
   map src_Id sources =
     map src_Id acc @ map (\<lambda>s. drop 7 (sec_name s)) (filter isSourceBase sections) \<and>
   map src_Order sources =
     map src_Order acc @ map (\<lambda>i. order + int i) [0..<length (filter isSourceBase sections)]"
proof (induction sections arbitrary: order acc)
  case Nil
  then show ?case by simp
next
  case (Cons s rest)
  show ?case
  proof (cases "isSourceBase s")
    case False
    with Cons show ?thesis by simp
  next
    case True
    with Cons.prems obtain sc where sc: "getSource config order s = Inr sc"
      and rest: "getSources_loop config rest (order + 1) (acc @ [sc]) = Inr sources"
      by (auto split: sum.splits)
    from Cons.IH [OF rest] getSource_Inr [OF sc] True show ?thesis
      by (simp add: upt_shift del: upt_Suc)
  qed
qed

lemma dot_sections: "ChildSections dotConfig ''source'' = dotConfig"
  by (simp add: ChildSections_def dotConfig_def HasPrefix_def)

lemma isSourceBase_dot:
  "isSourceBase \<lparr>sec_name = ''source.rs1'', sec_keys = ks, sec_body = b\<rparr>"
  "\<not> isSourceBase \<lparr>sec_name = ''source.rs1.gobgp'', sec_keys = ks, sec_body = b\<rparr>"
  by (simp_all add: isSourceBase_count)

lemma dot_children:
  "ChildSections dotConfig ''source.rs1'' =
     [\<lparr>sec_name = ''source.rs1.gobgp'', sec_keys = [], sec_body = []\<rparr>]"
  by (simp add: ChildSections_def dotConfig_def HasPrefix_def)

lemma TrimmedStringList_empty: "TrimmedStringList [] = []"
  by (simp add: TrimmedStringList_def Split_def)

lemma dot_keys:
  "MustString dotConfig
     \<lparr>sec_name = ''source.rs1'', sec_keys = [(''name'', ''RS1'')], sec_body = []\<rparr>
     ''name'' ''Unknown Source'' = ''RS1''"
  "MustString dotConfig
     \<lparr>sec_name = ''source.rs1'', sec_keys = [(''name'', ''RS1'')], sec_body = []\<rparr>
     ''group'' [] = []"
  "MustString dotConfig
     \<lparr>sec_name = ''source.rs1'', sec_keys = [(''name'', ''RS1'')], sec_body = []\<rparr>
     ''blackholes'' [] = []"
  by (simp_all add: MustString_def KeyString_def GetKey_def parentNames_def dotConfig_def)

lemma dot_source:
  "getSource dotConfig 0 \<lparr>sec_name = ''source.rs1'', sec_keys = [(''name'', ''RS1'')], sec_body = []\<rparr> =
     Inr \<lparr>src_Id = ''rs1'', src_Order = 0, src_Name = ''RS1'', src_Group = [],
          src_Blackholes = [], src_Type = SOURCE_GOBGP,
          src_Birdwatcher = birdwatcher_Config0,
          src_GoBGP = \<lparr>gobgp_Id = ''rs1'', gobgp_Name = ''RS1'',
                       gobgp_mapped = Some \<lparr>sec_name = ''source.rs1.gobgp'', sec_keys = [],
                                             sec_body = []\<rparr>\<rparr>,
          src_BioRIS = bioris_Config0, src_instance = None\<rparr>"
  by (simp add: getSource_def dot_children getBackendType_def HasSuffix_def dot_keys
      TrimmedStringList_empty Let_def)

lemma dot_sources:
  "getSources dotConfig =
     Inr [\<lparr>src_Id = ''rs1'', src_Order = 0, src_Name = ''RS1'', src_Group = [],
           src_Blackholes = [], src_Type = SOURCE_GOBGP,
           src_Birdwatcher = birdwatcher_Config0,
           src_GoBGP = \<lparr>gobgp_Id = ''rs1'', gobgp_Name = ''RS1'',
                        gobgp_mapped = Some \<lparr>sec_name = ''source.rs1.gobgp'', sec_keys = [],
                                              sec_body = []\<rparr>\<rparr>,
           src_BioRIS = bioris_Config0, src_instance = None\<rparr>]"
  unfolding getSources_def dot_sections
  by (simp add: dotConfig_def isSourceBase_dot dot_source [unfolded dotConfig_def])

text \<open>
  C5, as the claim states it, fails: a section named \<open>source:rs1\<close>, of the two-segment
  colon form, is not a source base for \<open>isSourceBase\<close>, which splits the name at dots, and
  a configuration that writes its source this way yields no source at all; written
  \<open>source.rs1\<close> the source is discovered.
\<close>

theorem source_discovery_counterexample:
  "\<not> isSourceBase \<lparr>sec_name = ''source:rs1'', sec_keys = [(''name'', ''RS1'')], sec_body = []\<rparr> \<and>
   getSources colonConfig = Inr [] \<and>
   (\<exists>sc. getSources dotConfig = Inr [sc] \<and> src_Id sc = ''rs1'')"
proof -
  have a: "\<not> isSourceBase \<lparr>sec_name = ''source:rs1'', sec_keys = [(''name'', ''RS1'')], sec_body = []\<rparr>"
    by (simp add: isSourceBase_count)
  have b: "ChildSections colonConfig ''source'' = []"
    by (simp add: ChildSections_def colonConfig_def HasPrefix_def)
  have c: "getSources colonConfig = Inr []"
    by (simp add: getSources_def b)
  from a c dot_sources show ?thesis by simp
qed

text \<open>
  C5, amended. Source discovery accepts exactly the sections of the configuration whose name
  is \<open>source.\<close> followed by an identifier without a dot (the two-segment form
  \<open>source.<id>\<close>). When \<open>getSources\<close> returns, it returns one descriptor for each accepted
  section, in scan order; the identifier of each is the section name with its first seven
  characters (the prefix \<open>source.\<close>) removed, and the \<open>Order\<close> fields are 0, 1, 2, \<dots> in
  that order.
\<close>

theorem source_discovery:
  "(section \<in> set (sourceSections config) \<longleftrightarrow>
      section \<in> set config \<and>
      (\<exists>ident. sec_name section = ''source.'' @ ident \<and> CHR ''.'' \<notin> set ident)) \<and>
   (getSources config = Inr sources \<longrightarrow>
      length sources = length (sourceSections config) \<and>
      map src_Id sources = map (\<lambda>s. drop 7 (sec_name s)) (sourceSections config) \<and>
      map src_Order sources = map int [0..<length sources])"
proof (intro conjI impI)
  show "section \<in> set (sourceSections config) \<longleftrightarrow>
      section \<in> set config \<and>
      (\<exists>ident. sec_name section = ''source.'' @ ident \<and> CHR ''.'' \<notin> set ident)"
    by (rule sourceSections_iff)
next
  assume ok: "getSources config = Inr sources"
  then have loop: "getSources_loop config (ChildSections config ''source'') 0 [] = Inr sources"
    by (simp add: getSources_def)
  from getSources_loop_result [OF loop]
  have ids: "map src_Id sources = map (\<lambda>s. drop 7 (sec_name s)) (sourceSections config)"
    and orders: "map src_Order sources = map int [0..<length (sourceSections config)]"
    by (simp_all add: sourceSections_def)
  from ids have len: "length sources = length (sourceSections config)"
    by (metis length_map)
  show "length sources = length (sourceSections config)" by (rule len)
  show "map src_Id sources = map (\<lambda>s. drop 7 (sec_name s)) (sourceSections config)" by (rule ids)
  show "map src_Order sources = map int [0..<length sources]" using orders len by simp
qed

theorem source_discovery_witness:
  "map src_Id (projr (getSources dotConfig)) = [''rs1''] \<and>
   map src_Order (projr (getSources dotConfig)) = [0] \<and>
   sourceSections dotConfig = [dotConfig ! 0]"
proof -
  have s: "sourceSections dotConfig = [dotConfig ! 0]"
    unfolding sourceSections_def dot_sections
    by (simp add: dotConfig_def isSourceBase_dot)
  from source_discovery [of _ dotConfig "projr (getSources dotConfig)"] dot_sources s
  show ?thesis by (simp add: dotConfig_def)
qed

section \<open>Validation of the sources\<close>

lemma getSource_no_backend:
  "7 \<le> length (sec_name section) \<Longrightarrow> ChildSections config (sec_name section) = [] \<Longrightarrow>
   getSource config order section = Inl (sourceError section '' has no backend configuration'')"
  by (simp add: getSource_def sourceError_def)

lemma getSource_ambiguous:
  "7 \<le> length (sec_name section) \<Longrightarrow> 1 < length (ChildSections config (sec_name section)) \<Longrightarrow>
   getSource config order section = Inl (sourceError section '' has ambigous backends'')"
  by (auto simp: getSource_def sourceError_def Let_def)

lemma getSource_unsupported:
  "7 \<le> length (sec_name section) \<Longrightarrow> ChildSections config (sec_name section) = [backend] \<Longrightarrow>
   getBackendType backend = SOURCE_UNKNOWN \<Longrightarrow>
   getSource config order section = Inl (sourceError section '' has an unsupported backend'')"
  by (simp add: getSource_def sourceError_def)

lemma getSource_gobgp:
  "7 \<le> length (sec_name section) \<Longrightarrow> ChildSections config (sec_name section) = [backend] \<Longrightarrow>
   getBackendType backend = SOURCE_GOBGP \<Longrightarrow>
   \<exists>sc. getSource config order section = Inr sc \<and> src_Type sc = SOURCE_GOBGP"
  by (simp add: getSource_def Let_def)

lemma getSource_bioris:
  "7 \<le> length (sec_name section) \<Longrightarrow> ChildSections config (sec_name section) = [backend] \<Longrightarrow>
   getBackendType backend = SOURCE_BIORIS \<Longrightarrow>
   \<exists>sc. getSource config order section = Inr sc \<and> src_Type sc = SOURCE_BIORIS"
  by (simp add: getSource_def Let_def)

lemma getSource_birdwatcher:
  "7 \<le> length (sec_name section) \<Longrightarrow> ChildSections config (sec_name section) = [backend] \<Longrightarrow>
   getBackendType backend = SOURCE_BIRDWATCHER \<Longrightarrow>
   MustString config backend ''type'' [] = ''single_table'' \<or>
   MustString config backend ''type'' [] = ''multi_table'' \<Longrightarrow>
   \<exists>sc. getSource config order section = Inr sc \<and> src_Type sc = SOURCE_BIRDWATCHER"
  by (auto simp: getSource_def Let_def)

lemma getSource_birdwatcher_fatal:
  "7 \<le> length (sec_name section) \<Longrightarrow> ChildSections config (sec_name section) = [backend] \<Longrightarrow>
   getBackendType backend = SOURCE_BIRDWATCHER \<Longrightarrow>
   MustString config backend ''type'' [] \<noteq> ''single_table'' \<Longrightarrow>
   MustString config backend ''type'' [] \<noteq> ''multi_table'' \<Longrightarrow>
   getSource config order section =
     Inl (Exit (''Configuration error (birdwatcher source) unknown birdwatcher type:''
                @ MustString config backend ''type'' []))"
  by (simp add: getSource_def Let_def)

lemma getSource_order_Inl:
  "getSource config order section = Inl f \<Longrightarrow> getSource config order' section = Inl f"
  by (auto simp: getSource_def Let_def split: if_splits)

lemma getSource_order_Inr:
  assumes "getSource config order section = Inr sc"
  shows "\<exists>sc'. getSource config order' section = Inr sc'"
proof (cases "getSource config order' section")
  case (Inl f)
  from getSource_order_Inl [OF this, of order] assms show ?thesis by simp
next
  case (Inr sc')
  then show ?thesis by blast
qed

lemma getSources_loop_first_failure:
  "\<forall>p \<in> set pre. isSourceBase p \<and> (\<exists>sc. getSource config 0 p = Inr sc) \<Longrightarrow>
   isSourceBase s \<Longrightarrow> getSource config 0 s = Inl f \<Longrightarrow>
   getSources_loop config (pre @ s # post) order acc = Inl f"
proof (induction pre arbitrary: order acc)
  case Nil
  from getSource_order_Inl [OF Nil(3), of order] Nil(2) show ?case by simp
next
  case (Cons p pre)
  then obtain sc0 where "getSource config 0 p = Inr sc0" and base: "isSourceBase p" by auto
  from getSource_order_Inr [OF this(1), of order]
  obtain sc where sc: "getSource config order p = Inr sc" by blast
  from Cons.prems(1) have rest: "\<forall>p \<in> set pre. isSourceBase p \<and> (\<exists>sc. getSource config 0 p = Inr sc)"
    by simp
  from Cons.IH [OF rest Cons.prems(2,3)] sc base show ?case by simp
qed

lemma getSources_loop_some_failure:
  "s \<in> set sections \<Longrightarrow> isSourceBase s \<Longrightarrow> getSource config 0 s = Inl f \<Longrightarrow>
   \<exists>g. getSources_loop config sections order acc = Inl g"
proof (induction sections arbitrary: order acc)
  case Nil
  then show ?case by simp
next
  case (Cons x xs)
  show ?case
  proof (cases "isSourceBase x")
    case False
    with Cons.prems have "s \<in> set xs" by auto
    from Cons.IH [OF this Cons.prems(2,3)] False show ?thesis by simp
  next
    case True
    show ?thesis
    proof (cases "getSource config order x")
      case (Inl g)
      with True show ?thesis by simp
    next
      case (Inr sc)
      with Cons.prems(3) getSource_order_Inl [OF Cons.prems(3), of order] have "s \<noteq> x" by auto
      with Cons.prems(1) have "s \<in> set xs" by simp
      from Cons.IH [OF this Cons.prems(2,3)] True Inr show ?thesis by simp
    qed
  qed
qed

lemma getSources_loop_all_ok:
  "\<forall>s \<in> set sections. isSourceBase s \<longrightarrow> (\<exists>sc. getSource config 0 s = Inr sc) \<Longrightarrow>
   \<exists>sources. getSources_loop config sections order acc = Inr sources"
proof (induction sections arbitrary: order acc)
  case Nil
  then show ?case by simp
next
  case (Cons x xs)
  then have rest: "\<forall>s \<in> set xs. isSourceBase s \<longrightarrow> (\<exists>sc. getSource config 0 s = Inr sc)" by simp
  show ?case
  proof (cases "isSourceBase x")
    case False
    with Cons.IH [OF rest] show ?thesis by simp
  next
    case True
    with Cons.prems obtain sc0 where "getSource config 0 x = Inr sc0" by auto
    from getSource_order_Inr [OF this, of order]
    obtain sc where "getSource config order x = Inr sc" by blast
    with Cons.IH [OF rest] True show ?thesis by simp
  qed
qed

lemma sourceSections_base: "s \<in> set (sourceSections config) \<Longrightarrow> isSourceBase s"
  by (simp add: sourceSections_def)

lemma getSources_filtered:
  "getSources config = getSources_loop config (sourceSections config) 0 []"
  unfolding getSources_def sourceSections_def by (rule getSources_loop_skip)

lemma getSources_some_failure:
  assumes "section \<in> set (sourceSections config)" "getSource config order section = Inl f"
  shows "\<exists>g. getSources config = Inl g"
  unfolding getSources_filtered
  by (rule getSources_loop_some_failure [OF assms(1) sourceSections_base [OF assms(1)]
        getSource_order_Inl [OF assms(2)]])

lemma getSources_first_failure:
  assumes "sourceSections config = pre @ section # post"
    and "\<forall>p \<in> set pre. \<exists>sc. getSource config 0 p = Inr sc"
    and "getSource config order section = Inl f"
  shows "getSources config = Inl f"
proof -
  have mem: "\<forall>p \<in> set (pre @ section # post). isSourceBase p"
    using sourceSections_base [of _ config] assms(1) by metis
  then have a: "\<forall>p \<in> set pre. isSourceBase p \<and> (\<exists>sc. getSource config 0 p = Inr sc)"
    using assms(2) by simp
  from mem have b: "isSourceBase section" by simp
  show ?thesis
    unfolding getSources_filtered assms(1)
    by (rule getSources_loop_first_failure [OF a b getSource_order_Inl [OF assms(3)]])
qed

lemma getSources_all_ok:
  assumes "\<forall>s \<in> set (sourceSections config). \<exists>sc. getSource config 0 s = Inr sc"
  shows "\<exists>sources. getSources config = Inr sources"
  unfolding getSources_filtered
  by (rule getSources_loop_all_ok) (use assms in blast)

lemma loadConfig_sources_fail:
  "getConfigFile notExist file = Inr file' \<Longrightarrow> LoadSources file' = Inr config \<Longrightarrow>
   getSources config = Inl f \<Longrightarrow>
   loadConfig notExist LoadSources wellKnown file = Inl f"
  by (simp add: loadConfig_def Let_def)

lemma getBackendType_unknown:
  "getBackendType backend = SOURCE_UNKNOWN \<longleftrightarrow>
     \<not> HasSuffix (sec_name backend) ''birdwatcher'' \<and>
     \<not> HasSuffix (sec_name backend) ''gobgp'' \<and>
     \<not> HasSuffix (sec_name backend) ''bioris''"
  by (simp add: getBackendType_def Let_def)

lemma getBackendType_birdwatcher:
  "getBackendType backend = SOURCE_BIRDWATCHER \<longleftrightarrow> HasSuffix (sec_name backend) ''birdwatcher''"
  by (simp add: getBackendType_def Let_def)

lemma getSource_recognized:
  assumes len: "7 \<le> length (sec_name section)"
    and child: "ChildSections config (sec_name section) = [backend]"
    and known: "getBackendType backend \<noteq> SOURCE_UNKNOWN"
    and bw: "HasSuffix (sec_name backend) ''birdwatcher'' \<longrightarrow>
             MustString config backend ''type'' [] = ''single_table'' \<or>
             MustString config backend ''type'' [] = ''multi_table''"
  shows "\<exists>sc. getSource config order section = Inr sc \<and>
              src_Id sc = drop 7 (sec_name section) \<and> src_Type sc = getBackendType backend"
proof -
  consider "getBackendType backend = SOURCE_BIRDWATCHER" | "getBackendType backend = SOURCE_GOBGP"
    | "getBackendType backend = SOURCE_BIORIS"
    using known by (auto simp: getBackendType_def Let_def split: if_splits)
  then have "\<exists>sc. getSource config order section = Inr sc \<and>
                 src_Type sc = getBackendType backend"
  proof cases
    case 1
    then have "HasSuffix (sec_name backend) ''birdwatcher''"
      by (simp only: getBackendType_birdwatcher)
    with bw have "MustString config backend ''type'' [] = ''single_table'' \<or>
        MustString config backend ''type'' [] = ''multi_table''" by simp
    from getSource_birdwatcher [OF len child 1 this, of order] 1 show ?thesis by simp
  next
    case 2
    from getSource_gobgp [OF len child 2, of order] 2 show ?thesis by simp
  next
    case 3
    from getSource_bioris [OF len child 3, of order] 3 show ?thesis by simp
  qed
  then obtain sc where sc: "getSource config order section = Inr sc"
    and t: "src_Type sc = getBackendType backend" by blast
  from getSource_Inr [OF sc] sc t show ?thesis by blast
qed

lemma getSources_all_ok_ids:
  assumes "\<forall>s \<in> set (sourceSections config). \<exists>sc. getSource config 0 s = Inr sc"
  shows "\<exists>sources. getSources config = Inr sources \<and>
           length sources = length (sourceSections config) \<and>
           map src_Id sources = map (\<lambda>s. drop 7 (sec_name s)) (sourceSections config)"
proof -
  from getSources_all_ok [OF assms] obtain sources where ok: "getSources config = Inr sources"
    by blast
  then have "getSources_loop config (ChildSections config ''source'') 0 [] = Inr sources"
    by (simp add: getSources_def)
  from getSources_loop_result [OF this]
  have ids: "map src_Id sources = map (\<lambda>s. drop 7 (sec_name s)) (sourceSections config)"
    by (simp add: sourceSections_def)
  then have "length sources = length (sourceSections config)" by (metis length_map)
  with ok ids show ?thesis by blast
qed

lemma found: "getConfigFile (foundAt name) name = Inr name"
  by (simp add: getConfigFile_def foundAt_def)

lemma parsed: "parsesTo config f = Inr config"
  by (simp add: parsesTo_def)

lemma base_rs1: "isSourceBase \<lparr>sec_name = ''source.rs1'', sec_keys = ks, sec_body = b\<rparr>"
  by (simp add: isSourceBase_count)

lemma not_base_backend:
  "\<not> isSourceBase \<lparr>sec_name = ''source.rs1.gobgp'', sec_keys = ks, sec_body = b\<rparr>"
  "\<not> isSourceBase \<lparr>sec_name = ''source.rs1.bioris'', sec_keys = ks, sec_body = b\<rparr>"
  "\<not> isSourceBase \<lparr>sec_name = ''source.rs1.birdwatcher'', sec_keys = ks, sec_body = b\<rparr>"
  "\<not> isSourceBase \<lparr>sec_name = ''source.rs1.openbgpd'', sec_keys = ks, sec_body = b\<rparr>"
  by (simp_all add: isSourceBase_count)

lemma sections_noBackend: "sourceSections noBackend = [] @ (noBackend ! 0) # []"
  by (simp add: sourceSections_def ChildSections_def HasPrefix_def noBackend_def base_rs1)

lemma sections_twoBackends: "sourceSections twoBackends = [] @ (twoBackends ! 0) # []"
  by (simp add: sourceSections_def ChildSections_def HasPrefix_def twoBackends_def base_rs1
      not_base_backend)

lemma sections_unknownBackend: "sourceSections unknownBackend = [] @ (unknownBackend ! 0) # []"
  by (simp add: sourceSections_def ChildSections_def HasPrefix_def unknownBackend_def base_rs1
      not_base_backend)

lemma sections_birdwatcherNoType:
  "sourceSections birdwatcherNoType = [] @ (birdwatcherNoType ! 0) # []"
  by (simp add: sourceSections_def ChildSections_def HasPrefix_def birdwatcherNoType_def
      base_rs1 not_base_backend)

lemma sections_dotConfig: "sourceSections dotConfig = [] @ (dotConfig ! 0) # []"
  by (simp add: sourceSections_def ChildSections_def HasPrefix_def dotConfig_def base_rs1
      not_base_backend)

lemma children_noBackend: "ChildSections noBackend (sec_name (noBackend ! 0)) = []"
  by (simp add: ChildSections_def HasPrefix_def noBackend_def)

lemma children_twoBackends:
  "ChildSections twoBackends (sec_name (twoBackends ! 0)) = [twoBackends ! 1, twoBackends ! 2]"
  by (simp add: ChildSections_def HasPrefix_def twoBackends_def)

lemma children_unknownBackend:
  "ChildSections unknownBackend (sec_name (unknownBackend ! 0)) = [unknownBackend ! 1]"
  by (simp add: ChildSections_def HasPrefix_def unknownBackend_def)

lemma children_birdwatcherNoType:
  "ChildSections birdwatcherNoType (sec_name (birdwatcherNoType ! 0)) = [birdwatcherNoType ! 1]"
  by (simp add: ChildSections_def HasPrefix_def birdwatcherNoType_def)

lemma children_dotConfig:
  "ChildSections dotConfig (sec_name (dotConfig ! 0)) = [dotConfig ! 1]"
  by (simp add: ChildSections_def HasPrefix_def dotConfig_def)

lemma type_unknownBackend: "getBackendType (unknownBackend ! 1) = SOURCE_UNKNOWN"
  by (simp add: getBackendType_def unknownBackend_def HasSuffix_def)

lemma type_dotConfig: "getBackendType (dotConfig ! 1) = SOURCE_GOBGP"
  by (simp add: getBackendType_def dotConfig_def HasSuffix_def)

lemma suffix_dotConfig: "\<not> HasSuffix (sec_name (dotConfig ! 1)) ''birdwatcher''"
  by (simp add: dotConfig_def HasSuffix_def)

lemma suffix_birdwatcherNoType:
  "HasSuffix (sec_name (birdwatcherNoType ! 1)) ''birdwatcher''"
  "MustString birdwatcherNoType (birdwatcherNoType ! 1) ''type'' [] = []"
  by (simp_all add: birdwatcherNoType_def HasSuffix_def MustString_def KeyString_def
      GetKey_def parentNames_def)

text \<open>
  C3. For every source section (a section the loop of \<open>getSources\<close> does not skip) that has
  no child section, or two or more, whatever the child sections contain: the construction
  of that source fails with the error that names the section, \<open>has no backend
  configuration\<close> for no child and \<open>has ambigous backends\<close> otherwise; \<open>getSources\<close> fails, and
  \<open>loadConfig\<close> on a file that parses to this configuration fails with the failure of
  \<open>getSources\<close> and returns no configuration; and when every source section before it in
  scan order constructs, that failure is the error naming the section.
\<close>

theorem source_without_single_backend:
  "section \<in> set (sourceSections config) \<and>
   length (ChildSections config (sec_name section)) \<noteq> 1 \<longrightarrow>
     getSource config order section =
       Inl (sourceError section
              (if ChildSections config (sec_name section) = []
               then '' has no backend configuration'' else '' has ambigous backends'')) \<and>
     (\<exists>f. getSources config = Inl f \<and>
          (getConfigFile notExist file = Inr file' \<and> LoadSources file' = Inr config \<longrightarrow>
             loadConfig notExist LoadSources wellKnown file = Inl f)) \<and>
     (sourceSections config = pre @ section # post \<and>
      (\<forall>p \<in> set pre. \<exists>sc. getSource config 0 p = Inr sc) \<longrightarrow>
        getSources config =
          Inl (sourceError section
                 (if ChildSections config (sec_name section) = []
                  then '' has no backend configuration'' else '' has ambigous backends'')))"
proof (intro impI)
  assume h: "section \<in> set (sourceSections config) \<and>
    length (ChildSections config (sec_name section)) \<noteq> 1"
  let ?e = "sourceError section
              (if ChildSections config (sec_name section) = []
               then '' has no backend configuration'' else '' has ambigous backends'')"
  from h have mem: "section \<in> set (sourceSections config)" by simp
  have len: "7 \<le> length (sec_name section)" by (rule sourceSections_length [OF mem])
  have fails: "getSource config order section = Inl ?e" for order
  proof (cases "ChildSections config (sec_name section) = []")
    case True
    with getSource_no_backend [OF len True] show ?thesis by simp
  next
    case False
    with h have "1 < length (ChildSections config (sec_name section))"
      by (cases "ChildSections config (sec_name section)") auto
    from getSource_ambiguous [OF len this] False show ?thesis by simp
  qed
  from h getSources_some_failure [OF _ fails] obtain g where g: "getSources config = Inl g"
    by blast
  show "getSource config order section = Inl ?e \<and>
     (\<exists>f. getSources config = Inl f \<and>
          (getConfigFile notExist file = Inr file' \<and> LoadSources file' = Inr config \<longrightarrow>
             loadConfig notExist LoadSources wellKnown file = Inl f)) \<and>
     (sourceSections config = pre @ section # post \<and>
      (\<forall>p \<in> set pre. \<exists>sc. getSource config 0 p = Inr sc) \<longrightarrow> getSources config = Inl ?e)"
    using fails g loadConfig_sources_fail [of notExist "file" "file'" LoadSources config g wellKnown]
      getSources_first_failure [of config pre "section" post 0 ?e]
    by blast
qed

theorem source_without_single_backend_witness:
  "getSources noBackend = Inl (Error (Errorf ''source.rs1 has no backend configuration'')) \<and>
   loadConfig (foundAt ''alice.conf'') (parsesTo noBackend) Map.empty ''alice.conf'' =
     Inl (Error (Errorf ''source.rs1 has no backend configuration'')) \<and>
   getSources twoBackends = Inl (Error (Errorf ''source.rs1 has ambigous backends'')) \<and>
   loadConfig (foundAt ''alice.conf'') (parsesTo twoBackends) Map.empty ''alice.conf'' =
     Inl (Error (Errorf ''source.rs1 has ambigous backends''))"
proof -
  have n: "noBackend ! 0 \<in> set (sourceSections noBackend)"
    by (simp add: sections_noBackend)
  have t: "twoBackends ! 0 \<in> set (sourceSections twoBackends)"
    by (simp add: sections_twoBackends)
  have en: "sourceError (noBackend ! 0) '' has no backend configuration'' =
      Error (Errorf ''source.rs1 has no backend configuration'')"
    by (simp add: sourceError_def noBackend_def)
  have et: "sourceError (twoBackends ! 0) '' has ambigous backends'' =
      Error (Errorf ''source.rs1 has ambigous backends'')"
    by (simp add: sourceError_def twoBackends_def)
  have a: "getSources noBackend = Inl (Error (Errorf ''source.rs1 has no backend configuration'')) \<and>
      loadConfig (foundAt ''alice.conf'') (parsesTo noBackend) Map.empty ''alice.conf'' =
        Inl (Error (Errorf ''source.rs1 has no backend configuration''))"
    using source_without_single_backend [of "noBackend ! 0" noBackend 0
        "foundAt ''alice.conf''" "''alice.conf''" "''alice.conf''" "parsesTo noBackend"
        Map.empty "[]" "[]"]
      n sections_noBackend children_noBackend en found [of "''alice.conf''"]
      parsed [of noBackend "''alice.conf''"]
    by auto
  have b: "getSources twoBackends = Inl (Error (Errorf ''source.rs1 has ambigous backends'')) \<and>
      loadConfig (foundAt ''alice.conf'') (parsesTo twoBackends) Map.empty ''alice.conf'' =
        Inl (Error (Errorf ''source.rs1 has ambigous backends''))"
    using source_without_single_backend [of "twoBackends ! 0" twoBackends 0
        "foundAt ''alice.conf''" "''alice.conf''" "''alice.conf''" "parsesTo twoBackends"
        Map.empty "[]" "[]"]
      t sections_twoBackends children_twoBackends et found [of "''alice.conf''"]
      parsed [of twoBackends "''alice.conf''"]
    by auto
  from a b show ?thesis by simp
qed

text \<open>
  C1, as the claim states it, fails: the single child section \<open>source.rs1.birdwatcher\<close>
  carries a recognized suffix, and with no \<open>type\<close> key in it the construction of the source
  ends in \<open>log.Fatal\<close>; the loader returns no descriptor.
\<close>

theorem source_construction_counterexample:
  "HasSuffix (sec_name (birdwatcherNoType ! 1)) ''birdwatcher'' \<and>
   ChildSections birdwatcherNoType (sec_name (birdwatcherNoType ! 0)) = [birdwatcherNoType ! 1] \<and>
   getSources birdwatcherNoType =
     Inl (Exit ''Configuration error (birdwatcher source) unknown birdwatcher type:'') \<and>
   loadConfig (foundAt ''alice.conf'') (parsesTo birdwatcherNoType) Map.empty ''alice.conf'' =
     Inl (Exit ''Configuration error (birdwatcher source) unknown birdwatcher type:'')"
proof -
  have len: "7 \<le> length (sec_name (birdwatcherNoType ! 0))"
    by (simp add: birdwatcherNoType_def)
  have t: "getBackendType (birdwatcherNoType ! 1) = SOURCE_BIRDWATCHER"
    by (simp only: getBackendType_birdwatcher suffix_birdwatcherNoType)
  have ne: "MustString birdwatcherNoType (birdwatcherNoType ! 1) ''type'' [] \<noteq> ''single_table''"
    "MustString birdwatcherNoType (birdwatcherNoType ! 1) ''type'' [] \<noteq> ''multi_table''"
    unfolding suffix_birdwatcherNoType(2) by simp_all
  have f: "getSource birdwatcherNoType 0 (birdwatcherNoType ! 0) =
      Inl (Exit ''Configuration error (birdwatcher source) unknown birdwatcher type:'')"
    using getSource_birdwatcher_fatal [OF len children_birdwatcherNoType t ne, of 0]
    by (simp only: suffix_birdwatcherNoType(2) append_Nil2)
  have g: "getSources birdwatcherNoType =
      Inl (Exit ''Configuration error (birdwatcher source) unknown birdwatcher type:'')"
    by (rule getSources_first_failure [OF sections_birdwatcherNoType _ f]) simp
  from g have l: "loadConfig (foundAt ''alice.conf'') (parsesTo birdwatcherNoType) Map.empty
      ''alice.conf'' =
      Inl (Exit ''Configuration error (birdwatcher source) unknown birdwatcher type:'')"
    by (rule loadConfig_sources_fail [OF found parsed])
  from suffix_birdwatcherNoType(1) children_birdwatcherNoType g l show ?thesis by simp
qed

lemma getSource_Inr_type:
  "getSource config order section = Inr sc \<Longrightarrow>
   ChildSections config (sec_name section) = [backend] \<Longrightarrow>
   src_Type sc = getBackendType backend"
  by (auto simp: getSource_def Let_def split: if_splits)

lemma getSources_loop_elems:
  "getSources_loop config sections order acc = Inr sources \<Longrightarrow>
   \<exists>new. sources = acc @ new \<and>
         list_all2 (\<lambda>s sc. \<exists>ord. getSource config ord s = Inr sc)
           (filter isSourceBase sections) new"
proof (induction sections arbitrary: order acc)
  case Nil
  then show ?case by simp
next
  case (Cons s rest)
  show ?case
  proof (cases "isSourceBase s")
    case False
    with Cons show ?thesis by simp
  next
    case True
    with Cons.prems obtain sc where sc: "getSource config order s = Inr sc"
      and rest: "getSources_loop config rest (order + 1) (acc @ [sc]) = Inr sources"
      by (auto split: sum.splits)
    from Cons.IH [OF rest] obtain new where new: "sources = (acc @ [sc]) @ new"
      and all: "list_all2 (\<lambda>s sc. \<exists>ord. getSource config ord s = Inr sc)
                  (filter isSourceBase rest) new"
      by blast
    have "list_all2 (\<lambda>s sc. \<exists>ord. getSource config ord s = Inr sc)
            (filter isSourceBase (s # rest)) (sc # new)"
      using True sc all by auto
    with new show ?thesis by auto
  qed
qed

lemma getSources_descriptor:
  assumes ok: "getSources config = Inr sources"
    and mem: "section \<in> set (sourceSections config)"
    and child: "ChildSections config (sec_name section) = [backend]"
  shows "\<exists>sc. sc \<in> set sources \<and> src_Id sc = drop 7 (sec_name section) \<and>
              src_Type sc = getBackendType backend"
proof -
  from ok have "getSources_loop config (ChildSections config ''source'') 0 [] = Inr sources"
    by (simp add: getSources_def)
  from getSources_loop_elems [OF this]
  have all: "list_all2 (\<lambda>s sc. \<exists>ord. getSource config ord s = Inr sc)
               (sourceSections config) sources"
    by (simp add: sourceSections_def)
  from mem obtain i where i: "i < length (sourceSections config)"
    and at: "sourceSections config ! i = section"
    by (auto simp: in_set_conv_nth)
  from all i have "\<exists>ord. getSource config ord (sourceSections config ! i) = Inr (sources ! i)"
    by (rule list_all2_nthD)
  then obtain ord where g: "getSource config ord section = Inr (sources ! i)"
    using at by auto
  from all have "length (sourceSections config) = length sources"
    by (rule list_all2_lengthD)
  with i have "sources ! i \<in> set sources" by simp
  with getSource_Inr [OF g] getSource_Inr_type [OF g child] show ?thesis by blast
qed

lemma loadConfig_ok:
  "getConfigFile notExist file = Inr file' \<Longrightarrow> LoadSources file' = Inr config \<Longrightarrow>
   getSources config = Inr sources \<Longrightarrow> getUiConfig wellKnown config = Inr ui \<Longrightarrow>
   \<exists>loaded. loadConfig notExist LoadSources wellKnown file = Inr loaded \<and>
            cfg_Sources loaded = sources"
  by (simp add: loadConfig_def Let_def)

lemma getRpkiConfig_default:
  "KeyString config (Section config ''rpki'') ''invalid'' = [] \<Longrightarrow>
   \<exists>rpki. getRpkiConfig config = Inr rpki"
  by (simp add: getRpkiConfig_def KeyStrings_def Let_def)

lemma getUiConfig_ok:
  "getRpkiConfig config = Inr rpki \<Longrightarrow> \<exists>ui. getUiConfig wellKnown config = Inr ui"
  by (simp add: getUiConfig_def getRoutesRejections_def getRoutesNoexports_def Let_def
      split: prod.splits)

lemma sections_inheritedType:
  "sourceSections inheritedType = [] @ (inheritedType ! 0) # []"
  by (simp add: sourceSections_def ChildSections_def HasPrefix_def inheritedType_def base_rs1
      not_base_backend)

lemma children_inheritedType:
  "ChildSections inheritedType (sec_name (inheritedType ! 0)) = [inheritedType ! 1]"
  by (simp add: ChildSections_def HasPrefix_def inheritedType_def)

lemma suffix_inheritedType:
  "HasSuffix (sec_name (inheritedType ! 1)) ''birdwatcher''"
  "map_of (sec_keys (inheritedType ! 1)) ''type'' = None"
  "MustString inheritedType (inheritedType ! 1) ''type'' [] = ''multi_table''"
  by (simp_all add: inheritedType_def HasSuffix_def MustString_def KeyString_def
      GetKey_def parentNames_def)

lemma type_inheritedType: "getBackendType (inheritedType ! 1) = SOURCE_BIRDWATCHER"
  by (simp only: getBackendType_birdwatcher suffix_inheritedType)

lemma rpki_absent:
  "KeyString dotConfig (Section dotConfig ''rpki'') ''invalid'' = []"
  "KeyString inheritedType (Section inheritedType ''rpki'') ''invalid'' = []"
  by (simp_all add: KeyString_def GetKey_def Section_def parentNames_def dotConfig_def
      inheritedType_def)

text \<open>
  C1, amended. For a source section whose single child section is \<open>backend\<close>: the backend
  type is unknown exactly when the name of \<open>backend\<close> ends in none of \<open>birdwatcher\<close>,
  \<open>gobgp\<close>, \<open>bioris\<close>. With a recognized suffix, and for \<open>birdwatcher\<close> a \<open>type\<close> of
  \<open>single_table\<close> or \<open>multi_table\<close> (a key that the backend section inherits from
  its parent sections when it has none of its own), the construction succeeds with a
  descriptor of that type. When moreover every source section constructs, \<open>getSources\<close>
  returns one descriptor for each, among them one with the identifier of the section and
  the type of its backend; and when the configuration file is found and parsed and the
  user-interface settings derive, \<open>loadConfig\<close> returns a configuration with exactly these
  descriptors. A birdwatcher backend with any other \<open>type\<close> ends the process through
  \<open>log.Fatal\<close>, so that \<open>getSources\<close> and \<open>loadConfig\<close> return nothing. With any other
  suffix the construction fails with the error \<open>has an unsupported backend\<close> that names
  the source section, \<open>getSources\<close> fails and \<open>loadConfig\<close> fails with its failure, which
  is that error when every source section before constructs.
\<close>

theorem source_construction:
  "section \<in> set (sourceSections config) \<and> ChildSections config (sec_name section) = [backend] \<longrightarrow>
     (getBackendType backend = SOURCE_UNKNOWN \<longleftrightarrow>
        \<not> HasSuffix (sec_name backend) ''birdwatcher'' \<and>
        \<not> HasSuffix (sec_name backend) ''gobgp'' \<and>
        \<not> HasSuffix (sec_name backend) ''bioris'') \<and>
     (getBackendType backend \<noteq> SOURCE_UNKNOWN \<and>
      (HasSuffix (sec_name backend) ''birdwatcher'' \<longrightarrow>
         MustString config backend ''type'' [] = ''single_table'' \<or>
         MustString config backend ''type'' [] = ''multi_table'') \<longrightarrow>
        (\<exists>sc. getSource config order section = Inr sc \<and>
              src_Id sc = drop 7 (sec_name section) \<and> src_Type sc = getBackendType backend) \<and>
        ((\<forall>s \<in> set (sourceSections config). \<exists>sc. getSource config 0 s = Inr sc) \<longrightarrow>
           (\<exists>sources. getSources config = Inr sources \<and>
                      length sources = length (sourceSections config) \<and>
                      map src_Id sources =
                        map (\<lambda>s. drop 7 (sec_name s)) (sourceSections config) \<and>
                      (\<exists>sc. sc \<in> set sources \<and> src_Id sc = drop 7 (sec_name section) \<and>
                            src_Type sc = getBackendType backend) \<and>
                      (getConfigFile notExist file = Inr file' \<and>
                       LoadSources file' = Inr config \<and>
                       getUiConfig wellKnown config = Inr ui \<longrightarrow>
                         (\<exists>loaded. loadConfig notExist LoadSources wellKnown file = Inr loaded \<and>
                                   cfg_Sources loaded = sources))))) \<and>
     (HasSuffix (sec_name backend) ''birdwatcher'' \<and>
      MustString config backend ''type'' [] \<noteq> ''single_table'' \<and>
      MustString config backend ''type'' [] \<noteq> ''multi_table'' \<longrightarrow>
        getSource config order section =
          Inl (Exit (''Configuration error (birdwatcher source) unknown birdwatcher type:''
                     @ MustString config backend ''type'' [])) \<and>
        (\<exists>f. getSources config = Inl f \<and>
             (getConfigFile notExist file = Inr file' \<and> LoadSources file' = Inr config \<longrightarrow>
                loadConfig notExist LoadSources wellKnown file = Inl f))) \<and>
     (getBackendType backend = SOURCE_UNKNOWN \<longrightarrow>
        getSource config order section =
          Inl (sourceError section '' has an unsupported backend'') \<and>
        (\<exists>f. getSources config = Inl f \<and>
             (getConfigFile notExist file = Inr file' \<and> LoadSources file' = Inr config \<longrightarrow>
                loadConfig notExist LoadSources wellKnown file = Inl f)) \<and>
        (sourceSections config = pre @ section # post \<and>
         (\<forall>p \<in> set pre. \<exists>sc. getSource config 0 p = Inr sc) \<longrightarrow>
           getSources config = Inl (sourceError section '' has an unsupported backend'')))"
proof (intro impI)
  assume h: "section \<in> set (sourceSections config) \<and>
    ChildSections config (sec_name section) = [backend]"
  then have mem: "section \<in> set (sourceSections config)"
    and child: "ChildSections config (sec_name section) = [backend]" by simp_all
  have len: "7 \<le> length (sec_name section)" by (rule sourceSections_length [OF mem])
  have one: "(getBackendType backend = SOURCE_UNKNOWN \<longleftrightarrow>
        \<not> HasSuffix (sec_name backend) ''birdwatcher'' \<and>
        \<not> HasSuffix (sec_name backend) ''gobgp'' \<and>
        \<not> HasSuffix (sec_name backend) ''bioris'')"
    by (rule getBackendType_unknown)
  have two: "(getBackendType backend \<noteq> SOURCE_UNKNOWN \<and>
      (HasSuffix (sec_name backend) ''birdwatcher'' \<longrightarrow>
         MustString config backend ''type'' [] = ''single_table'' \<or>
         MustString config backend ''type'' [] = ''multi_table'') \<longrightarrow>
        (\<exists>sc. getSource config order section = Inr sc \<and>
              src_Id sc = drop 7 (sec_name section) \<and> src_Type sc = getBackendType backend) \<and>
        ((\<forall>s \<in> set (sourceSections config). \<exists>sc. getSource config 0 s = Inr sc) \<longrightarrow>
           (\<exists>sources. getSources config = Inr sources \<and>
                      length sources = length (sourceSections config) \<and>
                      map src_Id sources =
                        map (\<lambda>s. drop 7 (sec_name s)) (sourceSections config) \<and>
                      (\<exists>sc. sc \<in> set sources \<and> src_Id sc = drop 7 (sec_name section) \<and>
                            src_Type sc = getBackendType backend) \<and>
                      (getConfigFile notExist file = Inr file' \<and>
                       LoadSources file' = Inr config \<and>
                       getUiConfig wellKnown config = Inr ui \<longrightarrow>
                         (\<exists>loaded. loadConfig notExist LoadSources wellKnown file = Inr loaded \<and>
                                   cfg_Sources loaded = sources)))))"
  proof (intro impI conjI)
    assume r: "getBackendType backend \<noteq> SOURCE_UNKNOWN \<and>
      (HasSuffix (sec_name backend) ''birdwatcher'' \<longrightarrow>
         MustString config backend ''type'' [] = ''single_table'' \<or>
         MustString config backend ''type'' [] = ''multi_table'')"
    then show "\<exists>sc. getSource config order section = Inr sc \<and>
              src_Id sc = drop 7 (sec_name section) \<and> src_Type sc = getBackendType backend"
      using getSource_recognized [OF len child, of order] by blast
    assume all: "\<forall>s \<in> set (sourceSections config). \<exists>sc. getSource config 0 s = Inr sc"
    from getSources_all_ok_ids [OF all] obtain sources
      where ok: "getSources config = Inr sources"
        and l: "length sources = length (sourceSections config)"
        and ids: "map src_Id sources = map (\<lambda>s. drop 7 (sec_name s)) (sourceSections config)"
      by blast
    have d: "\<exists>sc. sc \<in> set sources \<and> src_Id sc = drop 7 (sec_name section) \<and>
                  src_Type sc = getBackendType backend"
      by (rule getSources_descriptor [OF ok mem child])
    have ld: "getConfigFile notExist file = Inr file' \<and> LoadSources file' = Inr config \<and>
              getUiConfig wellKnown config = Inr ui \<longrightarrow>
                (\<exists>loaded. loadConfig notExist LoadSources wellKnown file = Inr loaded \<and>
                          cfg_Sources loaded = sources)"
      using loadConfig_ok [of notExist "file" "file'" LoadSources config sources wellKnown ui] ok
      by blast
    from ok l ids d ld
    show "\<exists>sources. getSources config = Inr sources \<and>
                      length sources = length (sourceSections config) \<and>
                      map src_Id sources =
                        map (\<lambda>s. drop 7 (sec_name s)) (sourceSections config) \<and>
                      (\<exists>sc. sc \<in> set sources \<and> src_Id sc = drop 7 (sec_name section) \<and>
                            src_Type sc = getBackendType backend) \<and>
                      (getConfigFile notExist file = Inr file' \<and>
                       LoadSources file' = Inr config \<and>
                       getUiConfig wellKnown config = Inr ui \<longrightarrow>
                         (\<exists>loaded. loadConfig notExist LoadSources wellKnown file = Inr loaded \<and>
                                   cfg_Sources loaded = sources))"
      by blast
  qed
  have three: "(HasSuffix (sec_name backend) ''birdwatcher'' \<and>
      MustString config backend ''type'' [] \<noteq> ''single_table'' \<and>
      MustString config backend ''type'' [] \<noteq> ''multi_table'' \<longrightarrow>
        getSource config order section =
          Inl (Exit (''Configuration error (birdwatcher source) unknown birdwatcher type:''
                     @ MustString config backend ''type'' [])) \<and>
        (\<exists>f. getSources config = Inl f \<and>
             (getConfigFile notExist file = Inr file' \<and> LoadSources file' = Inr config \<longrightarrow>
                loadConfig notExist LoadSources wellKnown file = Inl f)))"
  proof (intro impI)
    assume b: "HasSuffix (sec_name backend) ''birdwatcher'' \<and>
      MustString config backend ''type'' [] \<noteq> ''single_table'' \<and>
      MustString config backend ''type'' [] \<noteq> ''multi_table''"
    then have t: "getBackendType backend = SOURCE_BIRDWATCHER"
      by (simp only: getBackendType_birdwatcher)
    from b have fatal: "getSource config order section =
          Inl (Exit (''Configuration error (birdwatcher source) unknown birdwatcher type:''
                     @ MustString config backend ''type'' []))"
      using getSource_birdwatcher_fatal [OF len child t, of order] by simp
    from getSources_some_failure [OF mem fatal] obtain g where g: "getSources config = Inl g"
      by blast
    show "getSource config order section =
          Inl (Exit (''Configuration error (birdwatcher source) unknown birdwatcher type:''
                     @ MustString config backend ''type'' [])) \<and>
        (\<exists>f. getSources config = Inl f \<and>
             (getConfigFile notExist file = Inr file' \<and> LoadSources file' = Inr config \<longrightarrow>
                loadConfig notExist LoadSources wellKnown file = Inl f))"
      using fatal g
        loadConfig_sources_fail [of notExist "file" "file'" LoadSources config g wellKnown]
      by blast
  qed
  have four: "(getBackendType backend = SOURCE_UNKNOWN \<longrightarrow>
        getSource config order section =
          Inl (sourceError section '' has an unsupported backend'') \<and>
        (\<exists>f. getSources config = Inl f \<and>
             (getConfigFile notExist file = Inr file' \<and> LoadSources file' = Inr config \<longrightarrow>
                loadConfig notExist LoadSources wellKnown file = Inl f)) \<and>
        (sourceSections config = pre @ section # post \<and>
         (\<forall>p \<in> set pre. \<exists>sc. getSource config 0 p = Inr sc) \<longrightarrow>
           getSources config = Inl (sourceError section '' has an unsupported backend'')))"
  proof (intro impI)
    assume u: "getBackendType backend = SOURCE_UNKNOWN"
    have fails: "getSource config order section =
        Inl (sourceError section '' has an unsupported backend'')" for order
      by (rule getSource_unsupported [OF len child u])
    from getSources_some_failure [OF mem fails] obtain g where g: "getSources config = Inl g"
      by blast
    show "getSource config order section =
          Inl (sourceError section '' has an unsupported backend'') \<and>
        (\<exists>f. getSources config = Inl f \<and>
             (getConfigFile notExist file = Inr file' \<and> LoadSources file' = Inr config \<longrightarrow>
                loadConfig notExist LoadSources wellKnown file = Inl f)) \<and>
        (sourceSections config = pre @ section # post \<and>
         (\<forall>p \<in> set pre. \<exists>sc. getSource config 0 p = Inr sc) \<longrightarrow>
           getSources config = Inl (sourceError section '' has an unsupported backend''))"
      using fails g
        loadConfig_sources_fail [of notExist "file" "file'" LoadSources config g wellKnown]
        getSources_first_failure [of config pre "section" post 0
          "sourceError section '' has an unsupported backend''"]
      by blast
  qed
  from one two three four
  show "(getBackendType backend = SOURCE_UNKNOWN \<longleftrightarrow>
        \<not> HasSuffix (sec_name backend) ''birdwatcher'' \<and>
        \<not> HasSuffix (sec_name backend) ''gobgp'' \<and>
        \<not> HasSuffix (sec_name backend) ''bioris'') \<and>
     (getBackendType backend \<noteq> SOURCE_UNKNOWN \<and>
      (HasSuffix (sec_name backend) ''birdwatcher'' \<longrightarrow>
         MustString config backend ''type'' [] = ''single_table'' \<or>
         MustString config backend ''type'' [] = ''multi_table'') \<longrightarrow>
        (\<exists>sc. getSource config order section = Inr sc \<and>
              src_Id sc = drop 7 (sec_name section) \<and> src_Type sc = getBackendType backend) \<and>
        ((\<forall>s \<in> set (sourceSections config). \<exists>sc. getSource config 0 s = Inr sc) \<longrightarrow>
           (\<exists>sources. getSources config = Inr sources \<and>
                      length sources = length (sourceSections config) \<and>
                      map src_Id sources =
                        map (\<lambda>s. drop 7 (sec_name s)) (sourceSections config) \<and>
                      (\<exists>sc. sc \<in> set sources \<and> src_Id sc = drop 7 (sec_name section) \<and>
                            src_Type sc = getBackendType backend) \<and>
                      (getConfigFile notExist file = Inr file' \<and>
                       LoadSources file' = Inr config \<and>
                       getUiConfig wellKnown config = Inr ui \<longrightarrow>
                         (\<exists>loaded. loadConfig notExist LoadSources wellKnown file = Inr loaded \<and>
                                   cfg_Sources loaded = sources))))) \<and>
     (HasSuffix (sec_name backend) ''birdwatcher'' \<and>
      MustString config backend ''type'' [] \<noteq> ''single_table'' \<and>
      MustString config backend ''type'' [] \<noteq> ''multi_table'' \<longrightarrow>
        getSource config order section =
          Inl (Exit (''Configuration error (birdwatcher source) unknown birdwatcher type:''
                     @ MustString config backend ''type'' [])) \<and>
        (\<exists>f. getSources config = Inl f \<and>
             (getConfigFile notExist file = Inr file' \<and> LoadSources file' = Inr config \<longrightarrow>
                loadConfig notExist LoadSources wellKnown file = Inl f))) \<and>
     (getBackendType backend = SOURCE_UNKNOWN \<longrightarrow>
        getSource config order section =
          Inl (sourceError section '' has an unsupported backend'') \<and>
        (\<exists>f. getSources config = Inl f \<and>
             (getConfigFile notExist file = Inr file' \<and> LoadSources file' = Inr config \<longrightarrow>
                loadConfig notExist LoadSources wellKnown file = Inl f)) \<and>
        (sourceSections config = pre @ section # post \<and>
         (\<forall>p \<in> set pre. \<exists>sc. getSource config 0 p = Inr sc) \<longrightarrow>
           getSources config = Inl (sourceError section '' has an unsupported backend'')))"
    by (intro conjI)
qed

theorem source_construction_witness:
  "(\<exists>loaded sc. loadConfig (foundAt ''alice.conf'') (parsesTo dotConfig) Map.empty ''alice.conf'' =
        Inr loaded \<and>
      cfg_Sources loaded = [sc] \<and> src_Id sc = ''rs1'' \<and> src_Type sc = SOURCE_GOBGP) \<and>
   (map_of (sec_keys (inheritedType ! 1)) ''type'' = None \<and>
    (\<exists>loaded sc. loadConfig (foundAt ''alice.conf'') (parsesTo inheritedType) Map.empty
          ''alice.conf'' = Inr loaded \<and>
       cfg_Sources loaded = [sc] \<and> src_Id sc = ''rs1'' \<and> src_Type sc = SOURCE_BIRDWATCHER)) \<and>
   getSources unknownBackend = Inl (Error (Errorf ''source.rs1 has an unsupported backend'')) \<and>
   loadConfig (foundAt ''alice.conf'') (parsesTo unknownBackend) Map.empty ''alice.conf'' =
     Inl (Error (Errorf ''source.rs1 has an unsupported backend''))"
proof -
  have d: "dotConfig ! 0 \<in> set (sourceSections dotConfig)"
    by (simp add: sections_dotConfig)
  have i: "inheritedType ! 0 \<in> set (sourceSections inheritedType)"
    by (simp add: sections_inheritedType)
  have u: "unknownBackend ! 0 \<in> set (sourceSections unknownBackend)"
    by (simp add: sections_unknownBackend)
  have eu: "sourceError (unknownBackend ! 0) '' has an unsupported backend'' =
      Error (Errorf ''source.rs1 has an unsupported backend'')"
    by (simp add: sourceError_def unknownBackend_def)
  have idd: "drop 7 (sec_name (dotConfig ! 0)) = ''rs1''"
    by (simp add: dotConfig_def)
  have idi: "drop 7 (sec_name (inheritedType ! 0)) = ''rs1''"
    by (simp add: inheritedType_def)
  from getRpkiConfig_default [OF rpki_absent(1)] getUiConfig_ok [of dotConfig _ Map.empty]
  obtain uid where uid: "getUiConfig Map.empty dotConfig = Inr uid"
    by blast
  from getRpkiConfig_default [OF rpki_absent(2)] getUiConfig_ok [of inheritedType _ Map.empty]
  obtain uii where uii: "getUiConfig Map.empty inheritedType = Inr uii"
    by blast
  have a: "\<exists>loaded sc. loadConfig (foundAt ''alice.conf'') (parsesTo dotConfig) Map.empty
        ''alice.conf'' = Inr loaded \<and>
      cfg_Sources loaded = [sc] \<and> src_Id sc = ''rs1'' \<and> src_Type sc = SOURCE_GOBGP"
  proof -
    from source_construction [of "dotConfig ! 0" dotConfig "dotConfig ! 1" 0
        "foundAt ''alice.conf''" "''alice.conf''" "''alice.conf''" "parsesTo dotConfig"
        Map.empty uid]
      d children_dotConfig type_dotConfig suffix_dotConfig
    obtain sc0 where sc0: "getSource dotConfig 0 (dotConfig ! 0) = Inr sc0"
      and all: "(\<forall>s \<in> set (sourceSections dotConfig). \<exists>sc. getSource dotConfig 0 s = Inr sc) \<longrightarrow>
           (\<exists>sources. getSources dotConfig = Inr sources \<and>
                      length sources = length (sourceSections dotConfig) \<and>
                      map src_Id sources =
                        map (\<lambda>s. drop 7 (sec_name s)) (sourceSections dotConfig) \<and>
                      (\<exists>sc. sc \<in> set sources \<and> src_Id sc = drop 7 (sec_name (dotConfig ! 0)) \<and>
                            src_Type sc = getBackendType (dotConfig ! 1)) \<and>
                      (getConfigFile (foundAt ''alice.conf'') ''alice.conf'' = Inr ''alice.conf'' \<and>
                       parsesTo dotConfig ''alice.conf'' = Inr dotConfig \<and>
                       getUiConfig Map.empty dotConfig = Inr uid \<longrightarrow>
                         (\<exists>loaded. loadConfig (foundAt ''alice.conf'') (parsesTo dotConfig)
                              Map.empty ''alice.conf'' = Inr loaded \<and>
                            cfg_Sources loaded = sources)))"
      by auto
    from sc0 have every: "\<forall>s \<in> set (sourceSections dotConfig). \<exists>sc. getSource dotConfig 0 s = Inr sc"
      by (simp add: sections_dotConfig)
    from all every obtain sources where
      l0: "length sources = length (sourceSections dotConfig)"
      and ex: "\<exists>sc. sc \<in> set sources \<and> src_Id sc = drop 7 (sec_name (dotConfig ! 0)) \<and>
                    src_Type sc = getBackendType (dotConfig ! 1)"
      and imp: "getConfigFile (foundAt ''alice.conf'') ''alice.conf'' = Inr ''alice.conf'' \<and>
                parsesTo dotConfig ''alice.conf'' = Inr dotConfig \<and>
                getUiConfig Map.empty dotConfig = Inr uid \<longrightarrow>
                  (\<exists>loaded. loadConfig (foundAt ''alice.conf'') (parsesTo dotConfig)
                       Map.empty ''alice.conf'' = Inr loaded \<and>
                     cfg_Sources loaded = sources)"
      by blast
    from l0 have l: "length sources = 1"
      by (simp add: sections_dotConfig)
    from ex obtain sc where mem: "sc \<in> set sources" and id: "src_Id sc = ''rs1''"
      and ty: "src_Type sc = getBackendType (dotConfig ! 1)"
      by (auto simp only: idd)
    from imp found [of "''alice.conf''"] parsed [of dotConfig "''alice.conf''"] uid
    obtain loaded where ld: "loadConfig (foundAt ''alice.conf'') (parsesTo dotConfig) Map.empty
                 ''alice.conf'' = Inr loaded"
      and srcs: "cfg_Sources loaded = sources"
      by blast
    from l mem have "sources = [sc]"
      by (cases sources) auto
    with ld srcs id ty type_dotConfig show ?thesis by auto
  qed
  have b: "\<exists>loaded sc. loadConfig (foundAt ''alice.conf'') (parsesTo inheritedType) Map.empty
        ''alice.conf'' = Inr loaded \<and>
      cfg_Sources loaded = [sc] \<and> src_Id sc = ''rs1'' \<and> src_Type sc = SOURCE_BIRDWATCHER"
  proof -
    have r: "getBackendType (inheritedType ! 1) \<noteq> SOURCE_UNKNOWN"
      by (simp only: type_inheritedType) simp
    from source_construction [of "inheritedType ! 0" inheritedType "inheritedType ! 1" 0
        "foundAt ''alice.conf''" "''alice.conf''" "''alice.conf''" "parsesTo inheritedType"
        Map.empty uii]
      i children_inheritedType r suffix_inheritedType(3)
    obtain sc0 where sc0: "getSource inheritedType 0 (inheritedType ! 0) = Inr sc0"
      and all: "(\<forall>s \<in> set (sourceSections inheritedType).
                  \<exists>sc. getSource inheritedType 0 s = Inr sc) \<longrightarrow>
           (\<exists>sources. getSources inheritedType = Inr sources \<and>
                      length sources = length (sourceSections inheritedType) \<and>
                      map src_Id sources =
                        map (\<lambda>s. drop 7 (sec_name s)) (sourceSections inheritedType) \<and>
                      (\<exists>sc. sc \<in> set sources \<and>
                            src_Id sc = drop 7 (sec_name (inheritedType ! 0)) \<and>
                            src_Type sc = getBackendType (inheritedType ! 1)) \<and>
                      (getConfigFile (foundAt ''alice.conf'') ''alice.conf'' = Inr ''alice.conf'' \<and>
                       parsesTo inheritedType ''alice.conf'' = Inr inheritedType \<and>
                       getUiConfig Map.empty inheritedType = Inr uii \<longrightarrow>
                         (\<exists>loaded. loadConfig (foundAt ''alice.conf'') (parsesTo inheritedType)
                              Map.empty ''alice.conf'' = Inr loaded \<and>
                            cfg_Sources loaded = sources)))"
      by blast
    from sc0 have every: "\<forall>s \<in> set (sourceSections inheritedType). \<exists>sc. getSource inheritedType 0 s = Inr sc"
      by (simp add: sections_inheritedType)
    from all every obtain sources where
      l0: "length sources = length (sourceSections inheritedType)"
      and ex: "\<exists>sc. sc \<in> set sources \<and> src_Id sc = drop 7 (sec_name (inheritedType ! 0)) \<and>
                    src_Type sc = getBackendType (inheritedType ! 1)"
      and imp: "getConfigFile (foundAt ''alice.conf'') ''alice.conf'' = Inr ''alice.conf'' \<and>
                parsesTo inheritedType ''alice.conf'' = Inr inheritedType \<and>
                getUiConfig Map.empty inheritedType = Inr uii \<longrightarrow>
                  (\<exists>loaded. loadConfig (foundAt ''alice.conf'') (parsesTo inheritedType)
                       Map.empty ''alice.conf'' = Inr loaded \<and>
                     cfg_Sources loaded = sources)"
      by blast
    from l0 have l: "length sources = 1"
      by (simp add: sections_inheritedType)
    from ex obtain sc where mem: "sc \<in> set sources" and id: "src_Id sc = ''rs1''"
      and ty: "src_Type sc = getBackendType (inheritedType ! 1)"
      by (auto simp only: idi)
    from imp found [of "''alice.conf''"] parsed [of inheritedType "''alice.conf''"] uii
    obtain loaded where ld: "loadConfig (foundAt ''alice.conf'') (parsesTo inheritedType) Map.empty
                 ''alice.conf'' = Inr loaded"
      and srcs: "cfg_Sources loaded = sources"
      by blast
    from l mem have "sources = [sc]"
      by (cases sources) auto
    with ld srcs id ty type_inheritedType show ?thesis by auto
  qed
  have c: "getSources unknownBackend = Inl (Error (Errorf ''source.rs1 has an unsupported backend'')) \<and>
      loadConfig (foundAt ''alice.conf'') (parsesTo unknownBackend) Map.empty ''alice.conf'' =
        Inl (Error (Errorf ''source.rs1 has an unsupported backend''))"
    using source_construction [of "unknownBackend ! 0" unknownBackend "unknownBackend ! 1" 0
        "foundAt ''alice.conf''" "''alice.conf''" "''alice.conf''" "parsesTo unknownBackend"
        Map.empty uid "[]" "[]"]
      u sections_unknownBackend children_unknownBackend type_unknownBackend eu
      found [of "''alice.conf''"] parsed [of unknownBackend "''alice.conf''"]
    by auto
  from a b c suffix_inheritedType(2) show ?thesis by simp
qed

section \<open>Merging communities from a section body\<close>

lemma SplitN_two:
  "SplitN line sep 2 =
     (if sep \<in> set line
      then [takeWhile (\<lambda>c. c \<noteq> sep) line, tl (dropWhile (\<lambda>c. c \<noteq> sep) line)]
      else [line])"
proof (cases "sep \<in> set line")
  case True
  then show ?thesis by (simp add: numeral_2_eq_2 Cut_Some)
next
  case False
  then have "Cut line sep = None" by (simp add: Cut_None)
  with False show ?thesis by (simp add: numeral_2_eq_2)
qed

lemma mergeLines_fold: "mergeLines communities lines = fold setLine lines communities"
proof (induction lines arbitrary: communities)
  case Nil
  then show ?case by simp
next
  case (Cons line lines)
  show ?case
  proof (cases "hasEquals line")
    case True
    then have kv: "SplitN line CHR ''='' 2 =
        [takeWhile (\<lambda>c. c \<noteq> CHR ''='') line, tl (dropWhile (\<lambda>c. c \<noteq> CHR ''='') line)]"
      by (simp add: SplitN_two hasEquals_def)
    have one: "setLine line communities =
        Set communities (TrimSpace (takeWhile (\<lambda>c. c \<noteq> CHR ''='') line))
          (TrimSpace (tl (dropWhile (\<lambda>c. c \<noteq> CHR ''='') line)))"
      using True by (simp add: setLine_def Set_def lineKey_def lineLabel_def)
    have "mergeLines communities (line # lines) = mergeLines (setLine line communities) lines"
      by (simp add: kv one)
    also have "\<dots> = fold setLine lines (setLine line communities)"
      by (rule Cons.IH)
    finally show ?thesis by simp
  next
    case False
    then have kv: "SplitN line CHR ''='' 2 = [line]"
      by (simp add: SplitN_two hasEquals_def)
    have one: "setLine line communities = communities"
      using False by (simp add: setLine_def)
    have "mergeLines communities (line # lines) = mergeLines communities lines"
      by (simp add: kv)
    also have "\<dots> = fold setLine lines communities"
      by (rule Cons.IH)
    finally show ?thesis by (simp add: one)
  qed
qed

lemma fold_setLine_lookup:
  "fold setLine lines communities k =
     (case filter (\<lambda>line. hasEquals line \<and> lineKey line = k) (rev lines) of
        [] \<Rightarrow> communities k
      | line # _ \<Rightarrow> Some (lineLabel line))"
proof (induction lines rule: rev_induct)
  case Nil
  then show ?case by simp
next
  case (snoc line lines)
  then show ?case by (simp add: setLine_def)
qed

lemma fold_setLine_dom:
  "dom (fold setLine lines communities) =
     dom communities \<union> lineKey ` {line \<in> set lines. hasEquals line}"
proof (induction lines rule: rev_induct)
  case Nil
  then show ?case by simp
next
  case (snoc line lines)
  then show ?case by (auto simp: setLine_def)
qed

lemma fold_setLine_filter:
  "fold setLine lines communities = fold setLine (filter hasEquals lines) communities"
  by (induction lines arbitrary: communities) (simp_all add: setLine_def)

lemma exampleBody_lines:
  "Split exampleBody CHR 0x0A = [''65535:666 = drop here'', ''broken line'', ''65000:1:1=customer'']"
  by (simp add: exampleBody_def Split_def)

lemma example_hasEquals:
  "hasEquals ''65535:666 = drop here''" "\<not> hasEquals ''broken line''"
  "hasEquals ''65000:1:1=customer''"
  by (simp_all add: hasEquals_def)

lemma example_keys:
  "lineKey ''65535:666 = drop here'' = [''65535'', ''666'']"
  "lineKey ''65000:1:1=customer'' = [''65000'', ''1'', ''1'']"
  by (simp_all add: lineKey_def Split_def TrimSpace_def spaceWidth_def spaceWidthRight_def
      asciiSpace_def unicodeSpaces_def)

lemma example_labels:
  "lineLabel ''65535:666 = drop here'' = ''drop here''"
  "lineLabel ''65000:1:1=customer'' = ''customer''"
  by (simp_all add: lineLabel_def TrimSpace_def spaceWidth_def spaceWidthRight_def
      asciiSpace_def unicodeSpaces_def)

lemma example_dom:
  "[''65535'', ''666''] \<in> dom exampleWellKnown" "[''65000'', ''1'', ''1''] \<notin> dom exampleWellKnown"
  by (simp_all add: exampleWellKnown_def dom_def)

text \<open>
  C4. For every starting community set and every raw body: the label of a key after the
  merge is the label of the last line of the body that contains \<open>=\<close> and has that key
  (the trimmed left side as key, the trimmed right side as label, a later line for the
  same key overwriting an earlier one), and the starting label when there is no such line,
  so that a line without \<open>=\<close> changes no key; every key of the starting set is a key of the
  result, whose keys are those of the starting set and those of the lines with \<open>=\<close>. When
  the lines with \<open>=\<close> are two, the result is the starting set updated with both, and when
  the first overrides an existing key and the second adds a new one the keys of the result
  are the starting keys and the new key. \<open>getBgpCommunities\<close> is this merge, started from
  the well-known defaults, on the body of the section \<open>bgp_communities\<close>.
\<close>

theorem community_merge:
  "(\<forall>k. parseAndMergeCommunities communities body k =
         (case filter (\<lambda>line. hasEquals line \<and> lineKey line = k) (rev (Split body CHR 0x0A)) of
            [] \<Rightarrow> communities k
          | line # _ \<Rightarrow> Some (lineLabel line))) \<and>
   dom communities \<subseteq> dom (parseAndMergeCommunities communities body) \<and>
   dom (parseAndMergeCommunities communities body) =
     dom communities \<union> lineKey ` {line \<in> set (Split body CHR 0x0A). hasEquals line} \<and>
   (filter hasEquals (Split body CHR 0x0A) = [line1, line2] \<longrightarrow>
      parseAndMergeCommunities communities body =
        communities(lineKey line1 \<mapsto> lineLabel line1, lineKey line2 \<mapsto> lineLabel line2) \<and>
      (lineKey line1 \<in> dom communities \<and> lineKey line2 \<notin> dom communities \<longrightarrow>
         dom (parseAndMergeCommunities communities body) =
           dom communities \<union> {lineKey line2})) \<and>
   getBgpCommunities communities config =
     parseAndMergeCommunities communities (sec_body (Section config ''bgp_communities''))"
proof (intro conjI allI impI)
  fix k
  show "parseAndMergeCommunities communities body k =
         (case filter (\<lambda>line. hasEquals line \<and> lineKey line = k) (rev (Split body CHR 0x0A)) of
            [] \<Rightarrow> communities k
          | line # _ \<Rightarrow> Some (lineLabel line))"
    by (simp only: parseAndMergeCommunities_def mergeLines_fold fold_setLine_lookup)
next
  show "dom communities \<subseteq> dom (parseAndMergeCommunities communities body)"
    by (simp only: parseAndMergeCommunities_def mergeLines_fold fold_setLine_dom) blast
next
  show "dom (parseAndMergeCommunities communities body) =
     dom communities \<union> lineKey ` {line \<in> set (Split body CHR 0x0A). hasEquals line}"
    by (simp only: parseAndMergeCommunities_def mergeLines_fold fold_setLine_dom)
next
  assume two: "filter hasEquals (Split body CHR 0x0A) = [line1, line2]"
  have "\<forall>line \<in> set (filter hasEquals (Split body CHR 0x0A)). hasEquals line"
    by simp
  then have "hasEquals line1" "hasEquals line2"
    unfolding two by simp_all
  then have "fold setLine [line1, line2] communities =
      communities(lineKey line1 \<mapsto> lineLabel line1, lineKey line2 \<mapsto> lineLabel line2)"
    by (simp add: setLine_def)
  then show r: "parseAndMergeCommunities communities body =
        communities(lineKey line1 \<mapsto> lineLabel line1, lineKey line2 \<mapsto> lineLabel line2)"
    unfolding parseAndMergeCommunities_def mergeLines_fold
    by (subst fold_setLine_filter) (simp only: two)
  assume "lineKey line1 \<in> dom communities \<and> lineKey line2 \<notin> dom communities"
  then show "dom (parseAndMergeCommunities communities body) = dom communities \<union> {lineKey line2}"
    unfolding r by auto
next
  show "getBgpCommunities communities config =
     parseAndMergeCommunities communities (sec_body (Section config ''bgp_communities''))"
    by (simp add: getBgpCommunities_def)
qed

theorem community_merge_witness:
  "parseAndMergeCommunities exampleWellKnown exampleBody =
     exampleWellKnown([''65535'', ''666''] \<mapsto> ''drop here'',
                      [''65000'', ''1'', ''1''] \<mapsto> ''customer'') \<and>
   dom (parseAndMergeCommunities exampleWellKnown exampleBody) =
     dom exampleWellKnown \<union> {[''65000'', ''1'', ''1'']} \<and>
   parseAndMergeCommunities exampleWellKnown exampleBody [''65535'', ''65281''] = Some ''no-export''"
proof -
  have two: "filter hasEquals (Split exampleBody CHR 0x0A) =
      [''65535:666 = drop here'', ''65000:1:1=customer'']"
    by (simp add: exampleBody_lines example_hasEquals)
  note cm = community_merge [of exampleWellKnown exampleBody "''65535:666 = drop here''"
      "''65000:1:1=customer''" "[]"]
  have k1: "lineKey ''65535:666 = drop here'' \<in> dom exampleWellKnown"
    and k2: "lineKey ''65000:1:1=customer'' \<notin> dom exampleWellKnown"
    by (simp_all only: example_keys example_dom not_False_eq_True)
  from cm two have r': "parseAndMergeCommunities exampleWellKnown exampleBody =
      exampleWellKnown(lineKey ''65535:666 = drop here'' \<mapsto> lineLabel ''65535:666 = drop here'',
                       lineKey ''65000:1:1=customer'' \<mapsto> lineLabel ''65000:1:1=customer'')"
    by blast
  from cm two k1 k2 have d': "dom (parseAndMergeCommunities exampleWellKnown exampleBody) =
      dom exampleWellKnown \<union> {lineKey ''65000:1:1=customer''}"
    by blast
  have r: "parseAndMergeCommunities exampleWellKnown exampleBody =
      exampleWellKnown([''65535'', ''666''] \<mapsto> ''drop here'',
                       [''65000'', ''1'', ''1''] \<mapsto> ''customer'')"
    using r' by (simp only: example_keys example_labels)
  have d: "dom (parseAndMergeCommunities exampleWellKnown exampleBody) =
      dom exampleWellKnown \<union> {[''65000'', ''1'', ''1'']}"
    using d' by (simp only: example_keys)
  have "parseAndMergeCommunities exampleWellKnown exampleBody [''65535'', ''65281''] =
      Some ''no-export''"
    unfolding r by (simp add: exampleWellKnown_def)
  with r d show ?thesis by simp
qed

end
